theory Spec2Isabelle
  imports Main "HOL-Library.Multiset"
begin

section \<open>Billing core of the subscriber-management server (src/app.js)\<close>

text \<open>
  The development embeds the billing handlers of the second (current) server variant of
  \<^verbatim>\<open>src/app.js\<close>: subscriber creation (POST /api/users), the voucher merges
  (POST /api/vouchers, PUT /api/vouchers/:id), the convert-to-unpaid reversal, the status
  recalculations, the income debits and the noon rollover job
  \<^verbatim>\<open>moveTodayExpiredToUnpaid\<close>.

  Conventions. Money amounts are integers (rupees). A MongoDB collection is the list of its
  documents in natural order; \<^verbatim>\<open>findOne\<close> and \<^verbatim>\<open>updateOne\<close> act on the
  first document that matches. A text field that the code only ever tests with
  \<^verbatim>\<open>||\<close>, \<^verbatim>\<open>!x\<close> or \<^verbatim>\<open>===\<close> is a \<open>string\<close> whose empty value stands for
  every falsy content (undefined, null, the empty text). A field whose absence the code
  distinguishes from zero is an \<open>option\<close>.

  What the JavaScript date library and the store decide is a parameter of the handlers:
  \<open>pd\<close>, the epoch time of a date text; \<open>toISO\<close>, the ISO text of a date's local
  midnight; and the identifiers of inserted documents. Identifiers are taken as well-formed
  \<^verbatim>\<open>ObjectId\<close> texts. The refunds log, the transactions log and the time stamps
  \<^verbatim>\<open>lastUpdated\<close> of income records are not part of the model.
\<close>

subsection \<open>Civil dates\<close>

record civil =
  cy :: int
  cm :: int
  cd :: int

definition leap_year :: "int \<Rightarrow> bool" where
  "leap_year y = ((y mod 4 = 0 \<and> y mod 100 \<noteq> 0) \<or> y mod 400 = 0)"

definition days_in_month :: "int \<Rightarrow> int \<Rightarrow> int" where
  "days_in_month y m =
     (if m = 2 then (if leap_year y then 29 else 28)
      else if m = 4 \<or> m = 6 \<or> m = 9 \<or> m = 11 then 30 else 31)"

text \<open>
  A date of the calendar, \<open>cm\<close> counted from 1. Years below 100 are left out: the
  \<^verbatim>\<open>Date\<close> constructor maps them into the twentieth century.
\<close>

definition valid_civil :: "civil \<Rightarrow> bool" where
  "valid_civil c =
     (100 \<le> cy c \<and> 1 \<le> cm c \<and> cm c \<le> 12 \<and> 1 \<le> cd c \<and> cd c \<le> days_in_month (cy c) (cm c))"

text \<open>
  The value of a stored \<^verbatim>\<open>expiryDate\<close>: absent, a text \<^verbatim>\<open>DD-MM-YYYY\<close> (given by the
  three numbers its parts parse to), or a \<^verbatim>\<open>Date\<close> object (given by its civil day in
  the fixed UTC+5 zone). The model covers texts of valid calendar dates; on other texts the
  \<^verbatim>\<open>Date\<close> constructor normalises, which is not modelled.
\<close>

datatype expiry = ExpiryAbsent | ExpiryText civil | ExpiryDateObj civil

text \<open>
  The clock of one handler run: the instant \<^verbatim>\<open>new Date()\<close> (epoch milliseconds) and
  its civil day and hour after the \<^verbatim>\<open>PKT_OFFSET_MIN\<close> shift.
\<close>

record clock =
  c_now :: int
  c_today :: civil
  c_hour :: int

subsection \<open>Texts: lower case, trimming, search\<close>

text \<open>
  \<^verbatim>\<open>toLowerCase\<close>, \<^verbatim>\<open>trim\<close> and \<^verbatim>\<open>includes\<close> on ASCII texts. A regular
  expression \<^verbatim>\<open>^name$\<close> with the flag \<^verbatim>\<open>i\<close>, built from a name without
  metacharacters, matches the texts equal to the name up to letter case.
\<close>

definition lower_char :: "char \<Rightarrow> char" where
  "lower_char c =
     (case map_of (zip ''ABCDEFGHIJKLMNOPQRSTUVWXYZ'' ''abcdefghijklmnopqrstuvwxyz'') c of
        Some d \<Rightarrow> d | None \<Rightarrow> c)"

definition toLowerCase :: "string \<Rightarrow> string" where
  "toLowerCase t = map lower_char t"

definition is_space :: "char \<Rightarrow> bool" where
  "is_space c = (c = CHR '' '' \<or> c = CHR 0x09 \<or> c = CHR 0x0A \<or> c = CHR 0x0D)"

definition trim :: "string \<Rightarrow> string" where
  "trim t = rev (dropWhile is_space (rev (dropWhile is_space t)))"

fun starts_with :: "string \<Rightarrow> string \<Rightarrow> bool" where
  "starts_with t [] = True"
| "starts_with [] (p # ps) = False"
| "starts_with (c # cs) (p # ps) = (c = p \<and> starts_with cs ps)"

fun includes_text :: "string \<Rightarrow> string \<Rightarrow> bool" where
  "includes_text [] pat = (pat = [])"
| "includes_text (c # cs) pat = (starts_with (c # cs) pat \<or> includes_text cs pat)"

definition matches_name :: "string \<Rightarrow> string \<Rightarrow> bool" where
  "matches_name pattern t = (toLowerCase t = toLowerCase pattern)"

subsection \<open>Subscribers and their creation (POST /api/users)\<close>

record subscriber =
  u_id :: string
  u_userName :: string
  u_packageName :: string
  u_amount :: int
  u_discount :: int
  u_totalAmount :: int
  u_numberOfMonths :: int
  u_rechargeDate :: string
  u_expiryDate :: expiry
  u_status :: string
  u_serviceStatus :: string
  u_paidAmount :: int
  u_remainingAmount :: int
  u_unpaidSince :: "int option"
  u_showInExpiringSoon :: bool

record user_request =
  rq_userName :: string
  rq_packageName :: string
  rq_amount :: int
  rq_discount :: int
  rq_numberOfMonths :: "int option"
  rq_rechargeDate :: string
  rq_expiryDate :: expiry
  rq_status :: string
  rq_paymentType :: string

text \<open>\<^verbatim>\<open>parseExpiryDate\<close> of the creation handler: the three parts of the text, as parsed.\<close>

fun parseExpiryDate :: "expiry \<Rightarrow> civil option" where
  "parseExpiryDate ExpiryAbsent = None"
| "parseExpiryDate (ExpiryText c) = Some c"
| "parseExpiryDate (ExpiryDateObj c) = None"

definition isFutureExpiry :: "civil option \<Rightarrow> civil \<Rightarrow> bool" where
  "isFutureExpiry e t =
     (case e of None \<Rightarrow> False
      | Some x \<Rightarrow> cy x > cy t \<or> (cy x = cy t \<and> cm x > cm t)
                 \<or> (cy x = cy t \<and> cm x = cm t \<and> cd x > cd t))"

text \<open>\<^verbatim>\<open>Date.UTC(todayY, todayM, todayD + 1)\<close>: the day after a valid date.\<close>

definition tomorrow :: "civil \<Rightarrow> civil" where
  "tomorrow t =
     (if cd t + 1 \<le> days_in_month (cy t) (cm t) then t\<lparr>cd := cd t + 1\<rparr>
      else if cm t = 12 then \<lparr>cy = cy t + 1, cm = 1, cd = 1\<rparr>
      else \<lparr>cy = cy t, cm = cm t + 1, cd = 1\<rparr>)"

definition same_day :: "civil option \<Rightarrow> civil \<Rightarrow> bool" where
  "same_day e t = (case e of None \<Rightarrow> False | Some x \<Rightarrow> cy x = cy t \<and> cm x = cm t \<and> cd x = cd t)"

definition shouldShowInExpiringSoon :: "clock \<Rightarrow> civil option \<Rightarrow> bool" where
  "shouldShowInExpiringSoon clk e =
     (same_day e (tomorrow (c_today clk)) \<or> (same_day e (c_today clk) \<and> c_hour clk < 12))"

text \<open>
  \<^verbatim>\<open>numberOfMonths || 1\<close> and \<^verbatim>\<open>numberOfMonths > 1\<close>: an absent count is not
  greater than one.
\<close>

definition months_or_one :: "int option \<Rightarrow> int" where
  "months_or_one n = (case n of None \<Rightarrow> 1 | Some k \<Rightarrow> if k = 0 then 1 else k)"

definition more_than_one :: "int option \<Rightarrow> bool" where
  "more_than_one n = (case n of None \<Rightarrow> False | Some k \<Rightarrow> k > 1)"

text \<open>The payment status of the new subscriber, with its paid and remaining amounts.\<close>

definition paymentStatus :: "user_request \<Rightarrow> string \<times> int \<times> int" where
  "paymentStatus rq =
     (let monthlyFeeAfterDiscount = rq_amount rq - rq_discount rq;
          totalAmountForAllMonths = monthlyFeeAfterDiscount * months_or_one (rq_numberOfMonths rq)
      in if rq_status rq = ''pending'' then (''pending'', 0, totalAmountForAllMonths)
         else if rq_paymentType rq = ''now'' then
           (if more_than_one (rq_numberOfMonths rq) then ''partial'' else ''paid'',
            monthlyFeeAfterDiscount, totalAmountForAllMonths - monthlyFeeAfterDiscount)
         else if rq_paymentType rq = ''later'' then (''unpaid'', 0, totalAmountForAllMonths)
         else (''unpaid'', 0, totalAmountForAllMonths))"

definition newUser :: "clock \<Rightarrow> string \<Rightarrow> user_request \<Rightarrow> subscriber" where
  "newUser clk newUserId rq =
     (let (st, paid, remaining) = paymentStatus rq
      in \<lparr>u_id = newUserId,
          u_userName = trim (rq_userName rq),
          u_packageName = rq_packageName rq,
          u_amount = rq_amount rq,
          u_discount = rq_discount rq,
          u_totalAmount = (rq_amount rq - rq_discount rq) * months_or_one (rq_numberOfMonths rq),
          u_numberOfMonths = months_or_one (rq_numberOfMonths rq),
          u_rechargeDate = rq_rechargeDate rq,
          u_expiryDate = rq_expiryDate rq,
          u_status = st,
          u_serviceStatus = ''active'',
          u_paidAmount = paid,
          u_remainingAmount = remaining,
          u_unpaidSince = (if st = ''unpaid'' then Some (c_now clk) else None),
          u_showInExpiringSoon = shouldShowInExpiringSoon clk (parseExpiryDate (rq_expiryDate rq))\<rparr>)"

subsection \<open>Vouchers, month entries and the income ledger\<close>

text \<open>
  A date value of a month entry as stored or sent: absent, a text, or a \<^verbatim>\<open>Date\<close>
  object (its epoch milliseconds).
\<close>

datatype jsdate = NoDate | DateText string | DateObj int

record payment =
  p_amount :: int
  p_receivedBy :: string
  p_paymentMethod :: string

text \<open>
  A month entry. \<open>m_packageFee\<close> and \<open>m_discount\<close> are numbers, 0 when absent (the code
  reads them through \<^verbatim>\<open>Number(x || 0)\<close>); the code tells an absent
  \<^verbatim>\<open>paidAmount\<close>, \<^verbatim>\<open>remainingAmount\<close> and \<^verbatim>\<open>paymentHistory\<close> from a present one.
\<close>

record month_entry =
  m_month :: string
  m_packageFee :: int
  m_discount :: int
  m_paidAmount :: "int option"
  m_remainingAmount :: "int option"
  m_status :: string
  m_paymentMethod :: string
  m_receivedBy :: string
  m_paymentType :: string
  m_paymentHistory :: "payment list option"
  m_description :: string
  m_date :: jsdate
  m_createdAt :: jsdate
  m_updatedAt :: jsdate
  m_refundDate :: jsdate
  m_refundedAmount :: "int option"

text \<open>
  A voucher document. \<open>v_months\<close> is \<open>None\<close> for a document of the old flat structure,
  whose own billing fields are then \<open>v_flat\<close> and \<open>v_amount\<close>.
\<close>

record voucher =
  v_id :: string
  v_userId :: string
  v_userName :: string
  v_packageName :: string
  v_rechargeDate :: string
  v_expiryDate :: expiry
  v_months :: "month_entry list option"
  v_flat :: month_entry
  v_amount :: int

record income =
  i_name :: string
  i_cashIncome :: int
  i_bankIncome :: int

record transfer =
  t_feeCollector :: string
  t_amount :: int

text \<open>The collections the billing handlers read and write.\<close>

record db =
  users :: "subscriber list"
  vouchers :: "voucher list"
  incomes :: "income list"
  collections :: "transfer list"

datatype http_status = Ok200 | Created201 | BadRequest400 | NotFound404 | ServerError500

text \<open>
  POST /api/users: a request without a name is answered 400, otherwise the document is
  inserted under the identifier the store assigns.
\<close>

definition post_users :: "clock \<Rightarrow> string \<Rightarrow> user_request \<Rightarrow> db \<Rightarrow> http_status \<times> db" where
  "post_users clk newUserId rq s =
     (if rq_userName rq = [] then (BadRequest400, s)
      else (Created201, s\<lparr>users := users s @ [newUser clk newUserId rq]\<rparr>))"

subsection \<open>Store and JavaScript primitives\<close>

text \<open>\<^verbatim>\<open>updateOne\<close>: the first matching document is changed.\<close>

fun update_first :: "('a \<Rightarrow> bool) \<Rightarrow> ('a \<Rightarrow> 'a) \<Rightarrow> 'a list \<Rightarrow> 'a list" where
  "update_first P f [] = []"
| "update_first P f (x # xs) = (if P x then f x # xs else x # update_first P f xs)"

text \<open>\<^verbatim>\<open>Array.prototype.findIndex\<close>, with \<open>None\<close> for -1.\<close>

fun findIndex :: "('a \<Rightarrow> bool) \<Rightarrow> 'a list \<Rightarrow> nat option" where
  "findIndex P [] = None"
| "findIndex P (x # xs) = (if P x then Some 0 else map_option Suc (findIndex P xs))"

text \<open>\<^verbatim>\<open>a || b\<close> on texts, on date values and on optional arrays.\<close>

definition or_text :: "string \<Rightarrow> string \<Rightarrow> string" where
  "or_text a b = (if a = [] then b else a)"

definition truthy_date :: "jsdate \<Rightarrow> bool" where
  "truthy_date d = (d \<noteq> NoDate \<and> d \<noteq> DateText [])"

definition or_date :: "jsdate \<Rightarrow> jsdate \<Rightarrow> jsdate" where
  "or_date a b = (if truthy_date a then a else b)"

definition or_history :: "payment list option \<Rightarrow> payment list option \<Rightarrow> payment list option" where
  "or_history a b = (case a of Some h \<Rightarrow> Some h | None \<Rightarrow> b)"

text \<open>\<^verbatim>\<open>Number(x || 0)\<close> on an optional amount.\<close>

definition num0 :: "int option \<Rightarrow> int" where
  "num0 a = (case a of Some n \<Rightarrow> n | None \<Rightarrow> 0)"

text \<open>
  \<^verbatim>\<open>parseDate\<close> of the voucher handlers. An absent or empty value is the epoch, a
  \<^verbatim>\<open>Date\<close> object is itself, and a text goes through the ISO test, the DD-MM-YYYY split
  and the fallback \<^verbatim>\<open>new Date(dateStr)\<close>, with the epoch for an unparseable text: that
  chain is the JavaScript date library's and is the parameter \<open>pd\<close>.
\<close>

fun parseDate :: "(string \<Rightarrow> int) \<Rightarrow> jsdate \<Rightarrow> int" where
  "parseDate pd NoDate = 0"
| "parseDate pd (DateObj t) = t"
| "parseDate pd (DateText s) = (if s = [] then 0 else pd s)"

definition chargeTime :: "(string \<Rightarrow> int) \<Rightarrow> month_entry \<Rightarrow> int" where
  "chargeTime pd a = parseDate pd (or_date (m_date a) (m_createdAt a))"

text \<open>
  \<^verbatim>\<open>[...months].sort((a, b) => dateA.getTime() - dateB.getTime())\<close>: a stable sort,
  ascending in the charge time.
\<close>

definition sortMonths :: "(string \<Rightarrow> int) \<Rightarrow> month_entry list \<Rightarrow> month_entry list" where
  "sortMonths pd ms = sort_key (chargeTime pd) ms"

text \<open>\<^verbatim>\<open>!!(m.refundDate || m.refundedAmount)\<close>: the month counts as reversed.\<close>

definition isReversed :: "month_entry \<Rightarrow> bool" where
  "isReversed m =
     (truthy_date (m_refundDate m) \<or> (case m_refundedAmount m of Some n \<Rightarrow> n \<noteq> 0 | None \<Rightarrow> False))"

text \<open>\<^verbatim>\<open>existingVoucher.months || []\<close>.\<close>

definition months_of :: "voucher \<Rightarrow> month_entry list" where
  "months_of v = (case v_months v of Some ms \<Rightarrow> ms | None \<Rightarrow> [])"

subsection \<open>The smart merge of the voucher handlers\<close>

definition incoming_paid :: "month_entry \<Rightarrow> month_entry \<Rightarrow> int" where
  "incoming_paid existing incoming =
     (case m_paidAmount incoming of Some p \<Rightarrow> p | None \<Rightarrow> num0 (m_paidAmount existing))"

text \<open>The month exists: payment and status are updated, the package details kept.\<close>

definition update_existing :: "clock \<Rightarrow> month_entry \<Rightarrow> month_entry \<Rightarrow> month_entry" where
  "update_existing clk existing incoming =
     (let fee = m_packageFee existing;
          disc = m_discount existing;
          paid = incoming_paid existing incoming;
          remaining = max 0 (fee - disc - paid)
      in existing
         \<lparr>m_packageFee := fee,
          m_discount := disc,
          m_paidAmount := Some paid,
          m_remainingAmount := Some remaining,
          m_status := or_text (m_status incoming) (m_status existing),
          m_paymentMethod := (if paid > 0 then or_text (m_paymentMethod incoming) (m_paymentMethod existing)
                              else m_paymentMethod existing),
          m_receivedBy := (if paid > 0 then or_text (m_receivedBy incoming) (m_receivedBy existing)
                           else m_receivedBy existing),
          m_paymentHistory := or_history (m_paymentHistory incoming) (m_paymentHistory existing),
          m_description := or_text (m_description incoming) (m_description existing),
          m_date := or_date (m_date existing) (m_date incoming),
          m_updatedAt := DateObj (c_now clk)\<rparr>)"

text \<open>A new month: the incoming entry with its amounts calculated.\<close>

definition add_new :: "clock \<Rightarrow> month_entry \<Rightarrow> month_entry" where
  "add_new clk incoming =
     (let fee = m_packageFee incoming;
          disc = m_discount incoming;
          paid = num0 (m_paidAmount incoming);
          remaining = max 0 (fee - disc - paid)
      in incoming
         \<lparr>m_packageFee := fee,
          m_discount := disc,
          m_paidAmount := Some paid,
          m_remainingAmount := Some remaining,
          m_createdAt := or_date (m_createdAt incoming) (DateObj (c_now clk))\<rparr>)"

text \<open>The body of \<^verbatim>\<open>for (const incoming of sortedMonths)\<close>.\<close>

definition merge_step :: "clock \<Rightarrow> month_entry list \<Rightarrow> month_entry \<Rightarrow> month_entry list" where
  "merge_step clk mergedMonths incoming =
     (case findIndex (\<lambda>m. m_month m = m_month incoming) mergedMonths of
        Some existingIndex \<Rightarrow>
          mergedMonths[existingIndex := update_existing clk (mergedMonths ! existingIndex) incoming]
      | None \<Rightarrow> mergedMonths @ [add_new clk incoming])"

definition smart_merge :: "clock \<Rightarrow> month_entry list \<Rightarrow> month_entry list \<Rightarrow> month_entry list" where
  "smart_merge clk existingMonths sortedIncoming = foldl (merge_step clk) existingMonths sortedIncoming"

text \<open>
  POST /api/vouchers only: a month of status superbalance is turned into an unpaid one. A
  month entry of the model has a package fee; a stored month without one, for which the
  source computes \<^verbatim>\<open>undefined - discount\<close>, is outside the model.
\<close>

definition convert_superbalance :: "month_entry \<Rightarrow> month_entry" where
  "convert_superbalance month =
     (if m_status month = ''superbalance''
      then month\<lparr>m_status := ''unpaid'',
                 m_paidAmount := Some 0,
                 m_remainingAmount := Some (m_packageFee month - m_discount month),
                 m_paymentHistory := Some []\<rparr>
      else month)"

definition hasSuperBalanceConverted :: "month_entry list \<Rightarrow> bool" where
  "hasSuperBalanceConverted mergedMonths = list_ex (\<lambda>m. m_status m = ''superbalance'') mergedMonths"

subsection \<open>The income ledger\<close>

text \<open>
  \<^verbatim>\<open>updateOne({ name: receiver }, { $inc: { cashIncome: amount } }, { upsert: true })\<close>.
\<close>

definition credit_cash :: "string \<Rightarrow> int \<Rightarrow> income list \<Rightarrow> income list" where
  "credit_cash receiver amount inc =
     (if list_ex (\<lambda>r. i_name r = receiver) inc
      then update_first (\<lambda>r. i_name r = receiver) (\<lambda>r. r\<lparr>i_cashIncome := i_cashIncome r + amount\<rparr>) inc
      else inc @ [\<lparr>i_name = receiver, i_cashIncome = amount, i_bankIncome = 0\<rparr>])"

text \<open>The income of one payment of a payment history.\<close>

definition credit_payment :: "income list \<Rightarrow> payment \<Rightarrow> income list" where
  "credit_payment inc pay =
     (let receiver = or_text (p_receivedBy pay) ''Admin'';
          amount = p_amount pay
      in if amount > 0 then credit_cash receiver amount inc else inc)"

text \<open>The income of one incoming month: its payment history, or else its single receiver.\<close>

definition credit_month :: "income list \<Rightarrow> month_entry \<Rightarrow> income list" where
  "credit_month inc month =
     (if m_status month = ''paid'' \<or> m_status month = ''partial'' then
        (let paymentHistory = (case m_paymentHistory month of Some h \<Rightarrow> h | None \<Rightarrow> [])
         in if paymentHistory \<noteq> [] then foldl credit_payment inc paymentHistory
            else if m_receivedBy month \<noteq> [] then
              (let amount = num0 (m_paidAmount month)
               in if amount > 0 then credit_cash (m_receivedBy month) amount inc else inc)
            else inc)
      else inc)"

definition credit_months :: "income list \<Rightarrow> month_entry list \<Rightarrow> income list" where
  "credit_months inc sortedMonths = foldl credit_month inc sortedMonths"

subsection \<open>POST /api/vouchers with a months array\<close>

record voucher_request =
  vr_userId :: string
  vr_userName :: string
  vr_rechargeDate :: string
  vr_expiryDate :: expiry
  vr_months :: "month_entry list"

definition or_expiry :: "expiry \<Rightarrow> expiry \<Rightarrow> expiry" where
  "or_expiry a b = (if a = ExpiryAbsent then b else a)"

definition empty_month :: month_entry where
  "empty_month =
     \<lparr>m_month = [], m_packageFee = 0, m_discount = 0, m_paidAmount = None,
      m_remainingAmount = None, m_status = [], m_paymentMethod = [], m_receivedBy = [],
      m_paymentType = [], m_paymentHistory = None, m_description = [], m_date = NoDate,
      m_createdAt = NoDate, m_updatedAt = NoDate, m_refundDate = NoDate,
      m_refundedAmount = None\<rparr>"

text \<open>
  The handler for a request that carries a non-empty months array (a request without one has
  none of the single-month fields in this model and is answered 400). With an existing
  voucher the months are merged, superbalance months converted, the list sorted and stored;
  when a conversion took place the handler then reads \<^verbatim>\<open>updatedMonths\<close>, a name that
  is not bound in this handler: the \<^verbatim>\<open>ReferenceError\<close> is caught by the handler's
  \<^verbatim>\<open>catch\<close>, which answers 500, after the voucher was written and before the
  subscriber and the incomes are. The refunds log is not part of the model.
\<close>

definition post_vouchers ::
  "clock \<Rightarrow> (string \<Rightarrow> int) \<Rightarrow> string \<Rightarrow> voucher_request \<Rightarrow> db \<Rightarrow> http_status \<times> db" where
  "post_vouchers clk pd newId rq s =
     (if vr_months rq = [] then (BadRequest400, s)
      else
        let sortedMonths = sortMonths pd (vr_months rq)
        in case find (\<lambda>v. v_userId v = vr_userId rq) (vouchers s) of
             Some existingVoucher \<Rightarrow>
               (let mergedMonths = smart_merge clk (months_of existingVoucher) sortedMonths;
                    validMonths = map convert_superbalance mergedMonths;
                    finalSortedMonths = sortMonths pd validMonths;
                    s1 = s\<lparr>vouchers := update_first (\<lambda>v. v_userId v = vr_userId rq)
                           (\<lambda>v. v\<lparr>v_months := Some finalSortedMonths,
                                  v_rechargeDate := or_text (vr_rechargeDate rq) (v_rechargeDate existingVoucher),
                                  v_expiryDate := or_expiry (vr_expiryDate rq) (v_expiryDate existingVoucher)\<rparr>)
                           (vouchers s)\<rparr>
                in if hasSuperBalanceConverted mergedMonths then (ServerError500, s1)
                   else (Ok200, s1\<lparr>incomes := credit_months (incomes s1) sortedMonths\<rparr>))
           | None \<Rightarrow>
               (let newVoucher =
                      \<lparr>v_id = newId, v_userId = vr_userId rq, v_userName = vr_userName rq,
                       v_packageName = [], v_rechargeDate = vr_rechargeDate rq,
                       v_expiryDate = vr_expiryDate rq, v_months = Some sortedMonths,
                       v_flat = empty_month, v_amount = 0\<rparr>;
                    s1 = s\<lparr>vouchers := vouchers s @ [newVoucher]\<rparr>
                in (Created201, s1\<lparr>incomes := credit_months (incomes s1) sortedMonths\<rparr>)))"

subsection \<open>PUT /api/vouchers/:id, smart merge\<close>

text \<open>
  The handler for a request with a months array that is neither a refund nor of mode
  replace: the stored months are merged with the incoming ones and sorted. No superbalance
  month is converted here.
\<close>

record voucher_update =
  vu_months :: "month_entry list"
  vu_rechargeDate :: "string option"
  vu_expiryDate :: "expiry option"

definition put_voucher ::
  "clock \<Rightarrow> (string \<Rightarrow> int) \<Rightarrow> string \<Rightarrow> voucher_update \<Rightarrow> db \<Rightarrow> http_status \<times> db" where
  "put_voucher clk pd vid rq s =
     (case find (\<lambda>v. v_id v = vid) (vouchers s) of
        None \<Rightarrow> (NotFound404, s)
      | Some existingVoucher \<Rightarrow>
          (let sortedIncoming = sortMonths pd (vu_months rq);
               mergedMonths = smart_merge clk (months_of existingVoucher) sortedIncoming;
               months' = sortMonths pd mergedMonths
           in (Ok200,
               s\<lparr>vouchers := update_first (\<lambda>v. v_id v = vid)
                    (\<lambda>v. v\<lparr>v_months := Some months',
                           v_rechargeDate := (case vu_rechargeDate rq of None \<Rightarrow> v_rechargeDate v | Some r \<Rightarrow> r),
                           v_expiryDate := (case vu_expiryDate rq of None \<Rightarrow> v_expiryDate v | Some e \<Rightarrow> e)\<rparr>)
                    (vouchers s)\<rparr>)))"

subsection \<open>POST /api/vouchers/convert-to-unpaid\<close>

record convert_request =
  cr_userId :: string
  cr_month :: string
  cr_newPackageFee :: "int option"
  cr_newDiscount :: "int option"

text \<open>
  The deduction from the receiver's income: from the bank income when the payment method
  names a bank, from the cash income otherwise, not below zero; skipped when nothing was
  paid, when the month names no receiver, and when the receiver has no income record.
\<close>

definition deduct_income :: "string \<Rightarrow> string \<Rightarrow> int \<Rightarrow> income list \<Rightarrow> income list" where
  "deduct_income receivedBy paymentMethod refundedAmount inc =
     (if refundedAmount > 0 \<and> receivedBy \<noteq> [] then
        (let isBankTransfer = includes_text (toLowerCase paymentMethod) ''bank''
         in case find (\<lambda>r. i_name r = receivedBy) inc of
              Some incomeRecord \<Rightarrow>
                update_first (\<lambda>r. i_name r = receivedBy)
                  (\<lambda>r. if isBankTransfer
                        then r\<lparr>i_bankIncome := max 0 (i_bankIncome incomeRecord - refundedAmount)\<rparr>
                        else r\<lparr>i_cashIncome := max 0 (i_cashIncome incomeRecord - refundedAmount)\<rparr>)
                  inc
            | None \<Rightarrow> inc)
      else inc)"

definition converted_month :: "clock \<Rightarrow> month_entry \<Rightarrow> int \<Rightarrow> int \<Rightarrow> month_entry" where
  "converted_month clk monthData packageFee discount =
     monthData
       \<lparr>m_status := ''unpaid'',
        m_packageFee := packageFee,
        m_discount := discount,
        m_paidAmount := Some 0,
        m_remainingAmount := Some (packageFee - discount),
        m_paymentMethod := [],
        m_receivedBy := [],
        m_paymentHistory := Some [],
        m_refundDate := DateObj (c_now clk),
        m_refundedAmount := Some (num0 (m_paidAmount monthData))\<rparr>"

text \<open>The subscriber's totals and status from the months that do not count as reversed.\<close>

definition convert_status :: "month_entry list \<Rightarrow> string \<times> int \<times> int" where
  "convert_status updatedMonths =
     (let nonReversedMonths = filter (\<lambda>m. \<not> isReversed m) updatedMonths;
          totalPaid = sum_list (map (\<lambda>m. num0 (m_paidAmount m)) nonReversedMonths);
          totalRemaining = sum_list (map (\<lambda>m. num0 (m_remainingAmount m)) nonReversedMonths);
          hasUnpaidMonth = list_ex (\<lambda>m. m_status m = ''unpaid'') nonReversedMonths
      in (if hasUnpaidMonth then ''unpaid''
          else if totalRemaining = 0 \<and> totalPaid > 0 then ''paid''
          else if totalPaid > 0 then ''partial''
          else ''unpaid'',
          totalPaid, totalRemaining))"

text \<open>The months after the conversion of the month at \<open>monthIndex\<close>.\<close>

definition convert_result :: "clock \<Rightarrow> convert_request \<Rightarrow> month_entry list \<Rightarrow> nat \<Rightarrow> month_entry list" where
  "convert_result clk rq months monthIndex =
     months[monthIndex := converted_month clk (months ! monthIndex)
        (case cr_newPackageFee rq of Some f \<Rightarrow> f | None \<Rightarrow> m_packageFee (months ! monthIndex))
        (case cr_newDiscount rq of Some d \<Rightarrow> d | None \<Rightarrow> m_discount (months ! monthIndex))]"

text \<open>
  The handler. The voucher is the first of the subscriber; it is written back under its own
  \<^verbatim>\<open>_id\<close>, which the store keeps unique, so the document found is the one replaced.
  The subscriber document's second status field \<^verbatim>\<open>paymentStatus\<close> always equals
  \<open>u_status\<close> here and is not a field of the model.
\<close>

definition convert_to_unpaid :: "clock \<Rightarrow> convert_request \<Rightarrow> db \<Rightarrow> http_status \<times> db" where
  "convert_to_unpaid clk rq s =
     (if cr_userId rq = [] \<or> cr_month rq = [] then (BadRequest400, s)
      else case find (\<lambda>v. v_userId v = cr_userId rq) (vouchers s) of
        None \<Rightarrow> (NotFound404, s)
      | Some voucher \<Rightarrow>
         (case v_months voucher of
            None \<Rightarrow> (NotFound404, s)
          | Some months \<Rightarrow>
             (case findIndex (\<lambda>m. m_month m = cr_month rq) months of
                None \<Rightarrow> (NotFound404, s)
              | Some monthIndex \<Rightarrow>
                 (let monthData = months ! monthIndex;
                      packageFee = (case cr_newPackageFee rq of Some f \<Rightarrow> f | None \<Rightarrow> m_packageFee monthData);
                      discount = (case cr_newDiscount rq of Some d \<Rightarrow> d | None \<Rightarrow> m_discount monthData);
                      refundedAmount = num0 (m_paidAmount monthData);
                      receivedBy = m_receivedBy monthData;
                      paymentMethod = or_text (m_paymentMethod monthData) ''Cash'';
                      incomes' = deduct_income receivedBy paymentMethod refundedAmount (incomes s);
                      updatedMonths = convert_result clk rq months monthIndex;
                      vouchers' = update_first (\<lambda>v. v_userId v = cr_userId rq)
                                    (\<lambda>v. v\<lparr>v_months := Some updatedMonths\<rparr>) (vouchers s);
                      (newStatus, totalPaid, totalRemaining) = convert_status updatedMonths;
                      users' = update_first (\<lambda>u. u_id u = cr_userId rq)
                                 (\<lambda>u. u\<lparr>u_status := newStatus, u_paidAmount := totalPaid,
                                        u_remainingAmount := totalRemaining\<rparr>) (users s)
                  in (Ok200, s\<lparr>users := users', vouchers := vouchers', incomes := incomes'\<rparr>)))))"

subsection \<open>POST /api/users/:id/recalculate-status\<close>

text \<open>
  The entries one voucher contributes: its months, or for a document of the old flat
  structure the document itself, with \<^verbatim>\<open>packageFee || amount\<close> as its fee.
\<close>

definition recalc_entries :: "voucher \<Rightarrow> month_entry list" where
  "recalc_entries v =
     (case v_months v of
        Some ms \<Rightarrow> ms
      | None \<Rightarrow> [(v_flat v)\<lparr>m_packageFee :=
                    (if m_packageFee (v_flat v) \<noteq> 0 then m_packageFee (v_flat v) else v_amount v)\<rparr>])"

definition monthRemaining :: "month_entry \<Rightarrow> int" where
  "monthRemaining m =
     (case m_remainingAmount m of
        Some r \<Rightarrow> r
      | None \<Rightarrow> max 0 (m_packageFee m - m_discount m - num0 (m_paidAmount m)))"

text \<open>One pass of the loop body over an entry: (totalPaid, totalRemaining, hasUnpaidMonth).\<close>

definition recalc_entry :: "int \<times> int \<times> bool \<Rightarrow> month_entry \<Rightarrow> int \<times> int \<times> bool" where
  "recalc_entry acc m =
     (case acc of (totalPaid, totalRemaining, hasUnpaidMonth) \<Rightarrow>
        if isReversed m then acc
        else (totalPaid + num0 (m_paidAmount m), totalRemaining + monthRemaining m,
              hasUnpaidMonth \<or> m_status m = ''unpaid''))"

definition recalc_totals :: "voucher list \<Rightarrow> int \<times> int \<times> bool" where
  "recalc_totals userVouchers = foldl recalc_entry (0, 0, False) (concat (map recalc_entries userVouchers))"

definition calculatedStatus :: "int \<times> int \<times> bool \<Rightarrow> string" where
  "calculatedStatus acc =
     (case acc of (totalPaid, totalRemaining, hasUnpaidMonth) \<Rightarrow>
        if totalRemaining \<le> 0 then ''paid''
        else if hasUnpaidMonth then ''unpaid''
        else if totalPaid > 0 \<and> totalRemaining > 0 then ''partial''
        else ''unpaid'')"

definition recalculate_status :: "string \<Rightarrow> db \<Rightarrow> http_status \<times> db" where
  "recalculate_status userId s =
     (case find (\<lambda>u. u_id u = userId) (users s) of
        None \<Rightarrow> (NotFound404, s)
      | Some user \<Rightarrow>
         (let userVouchers = filter (\<lambda>v. v_userId v = userId) (vouchers s)
          in if userVouchers = [] then
               (Ok200, s\<lparr>users := update_first (\<lambda>u. u_id u = userId)
                   (\<lambda>u. u\<lparr>u_status := ''unpaid'', u_paidAmount := 0, u_remainingAmount := u_amount user\<rparr>)
                   (users s)\<rparr>)
             else
               (let acc = recalc_totals userVouchers
                in (Ok200, s\<lparr>users := update_first (\<lambda>u. u_id u = userId)
                     (\<lambda>u. u\<lparr>u_status := calculatedStatus acc, u_paidAmount := fst acc,
                            u_remainingAmount := fst (snd acc)\<rparr>)
                     (users s)\<rparr>))))"

subsection \<open>POST /api/refunds/process-payment, the status it stores\<close>

text \<open>
  After the reversed months are set to paid, the subscriber's status is recomputed from the
  months that do not count as reversed. The handler also computes \<^verbatim>\<open>hasUnpaidMonths\<close>
  and does not read it.
\<close>

definition process_payment_status :: "voucher list \<Rightarrow> string \<times> int \<times> int" where
  "process_payment_status userVouchers =
     (let nonReversedMonths = filter (\<lambda>m. \<not> isReversed m) (concat (map months_of userVouchers));
          totalPaid = sum_list (map (\<lambda>m. num0 (m_paidAmount m)) nonReversedMonths);
          totalRemaining = sum_list (map (\<lambda>m. num0 (m_remainingAmount m)) nonReversedMonths)
      in (if totalRemaining = 0 \<and> totalPaid > 0 then ''paid''
          else if totalPaid > 0 then ''partial''
          else ''unpaid'',
          totalPaid, totalRemaining))"

subsection \<open>DELETE /api/users/:id\<close>

text \<open>
  \<^verbatim>\<open>incomeDeductions\<close>: per receiver name, the cash and bank amounts to deduct, in the
  order the names were first met.
\<close>

type_synonym deductions = "(string \<times> int \<times> int) list"

definition add_deduction :: "string \<Rightarrow> int \<Rightarrow> int \<Rightarrow> deductions \<Rightarrow> deductions" where
  "add_deduction receiver cash bank ded =
     (if list_ex (\<lambda>d. fst d = receiver) ded
      then update_first (\<lambda>d. fst d = receiver)
             (\<lambda>d. (fst d, fst (snd d) + cash, snd (snd d) + bank)) ded
      else ded @ [(receiver, cash, bank)])"

definition deduct_payment :: "deductions \<Rightarrow> payment \<Rightarrow> deductions" where
  "deduct_payment ded pay =
     (let receiver = or_text (p_receivedBy pay) ''Admin'';
          amount = p_amount pay;
          paymentMethod = toLowerCase (trim (p_paymentMethod pay))
      in if amount > 0 then
           (if paymentMethod = ''cash'' then add_deduction receiver amount 0 ded
            else if paymentMethod = ''bank transfer'' then add_deduction receiver 0 amount ded
            else add_deduction receiver 0 0 ded)
         else ded)"

definition deduct_month :: "deductions \<Rightarrow> month_entry \<Rightarrow> deductions" where
  "deduct_month ded month =
     (if m_status month = ''reversed'' \<or> isReversed month then ded
      else
        let paymentHistory = (case m_paymentHistory month of Some h \<Rightarrow> h | None \<Rightarrow> [])
        in if paymentHistory \<noteq> [] then foldl deduct_payment ded paymentHistory
           else if m_receivedBy month \<noteq> [] \<and> (m_status month = ''paid'' \<or> m_status month = ''partial'') then
             (let receiver = m_receivedBy month;
                  amount = num0 (m_paidAmount month);
                  paymentMethod = toLowerCase (trim (m_paymentMethod month))
              in if amount > 0 then
                   (if paymentMethod = ''cash'' then add_deduction receiver amount 0 ded
                    else if paymentMethod = ''bank transfer'' then add_deduction receiver 0 amount ded
                    else add_deduction receiver amount 0 ded)
                 else ded)
           else ded)"

definition incomeDeductions :: "voucher list \<Rightarrow> deductions" where
  "incomeDeductions userVouchers =
     foldl (\<lambda>ded v. case v_months v of Some ms \<Rightarrow> foldl deduct_month ded ms | None \<Rightarrow> ded)
       [] userVouchers"

text \<open>
  One receiver's deduction: the first income record whose name equals the trimmed receiver
  name up to letter case gets both totals lowered, not below zero.
\<close>

definition apply_deduction :: "income list \<Rightarrow> string \<times> int \<times> int \<Rightarrow> income list" where
  "apply_deduction inc d =
     (case d of (receiver, cashIncome, bankIncome) \<Rightarrow>
        if cashIncome > 0 \<or> bankIncome > 0 then
          (case find (\<lambda>r. matches_name (trim receiver) (i_name r)) inc of
             Some currentIncomeRecord \<Rightarrow>
               update_first (\<lambda>r. matches_name (trim receiver) (i_name r))
                 (\<lambda>r. r\<lparr>i_cashIncome := max 0 (i_cashIncome currentIncomeRecord - cashIncome),
                        i_bankIncome := max 0 (i_bankIncome currentIncomeRecord - bankIncome)\<rparr>)
                 inc
           | None \<Rightarrow> inc)
        else inc)"

text \<open>\<^verbatim>\<open>deleteOne\<close>: the first matching document is removed.\<close>

fun remove_first :: "('a \<Rightarrow> bool) \<Rightarrow> 'a list \<Rightarrow> 'a list" where
  "remove_first P [] = []"
| "remove_first P (x # xs) = (if P x then xs else x # remove_first P xs)"

text \<open>
  The handler, for a well-formed identifier: incomes are lowered, the subscriber's vouchers
  deleted, then the subscriber; a subscriber that does not exist is answered 404 after the
  first two steps.
\<close>

definition delete_user :: "string \<Rightarrow> db \<Rightarrow> http_status \<times> db" where
  "delete_user userId s =
     (let userVouchers = filter (\<lambda>v. v_userId v = userId) (vouchers s);
          s1 = s\<lparr>incomes := foldl apply_deduction (incomes s) (incomeDeductions userVouchers),
                 vouchers := filter (\<lambda>v. v_userId v \<noteq> userId) (vouchers s)\<rparr>
      in if list_ex (\<lambda>u. u_id u = userId) (users s)
         then (Ok200, s1\<lparr>users := remove_first (\<lambda>u. u_id u = userId) (users s)\<rparr>)
         else (NotFound404, s1))"

subsection \<open>POST /api/collections/transfer\<close>

record transfer_request =
  tq_feeCollector :: string
  tq_amount :: int

text \<open>The fallback of the sufficiency check: the collector's income as the vouchers show it.\<close>

definition collected_in_month :: "string \<Rightarrow> month_entry \<Rightarrow> int" where
  "collected_in_month feeCollector month =
     (if m_status month = ''paid'' \<or> m_status month = ''partial'' then
        (let paymentHistory = (case m_paymentHistory month of Some h \<Rightarrow> h | None \<Rightarrow> [])
         in if paymentHistory \<noteq> [] then
              sum_list (map p_amount
                (filter (\<lambda>p. p_receivedBy p \<noteq> []
                            \<and> toLowerCase (p_receivedBy p) = toLowerCase (trim feeCollector))
                   paymentHistory))
            else if m_receivedBy month \<noteq> []
                    \<and> toLowerCase (m_receivedBy month) = toLowerCase (trim feeCollector)
              then num0 (m_paidAmount month)
            else 0)
      else 0)"

definition collected_from_vouchers :: "string \<Rightarrow> db \<Rightarrow> int" where
  "collected_from_vouchers feeCollector s =
     sum_list (map (collected_in_month feeCollector) (concat (map months_of (vouchers s))))
     - sum_list (map t_amount
         (filter (\<lambda>t. matches_name (trim feeCollector) (t_feeCollector t)) (collections s)))"

text \<open>
  The handler. The collector's cash income is lowered by a plain decrement; a collector
  without an income record gets one with a negative cash income.
\<close>

definition post_transfer :: "transfer_request \<Rightarrow> db \<Rightarrow> http_status \<times> db" where
  "post_transfer rq s =
     (if tq_feeCollector rq = [] \<or> tq_amount rq = 0 then (BadRequest400, s)
      else
        let transferAmount = tq_amount rq;
            feeCollectorTrimmed = trim (tq_feeCollector rq)
        in if transferAmount \<le> 0 then (BadRequest400, s)
           else
             let recorded = (case find (\<lambda>r. i_name r = feeCollectorTrimmed) (incomes s) of
                               Some feeCollectorIncome \<Rightarrow> i_cashIncome feeCollectorIncome
                             | None \<Rightarrow> 0);
                 currentIncome = (if recorded = 0 then collected_from_vouchers (tq_feeCollector rq) s
                                  else recorded)
             in if currentIncome < transferAmount then (BadRequest400, s)
                else
                  let collections' = collections s
                        @ [\<lparr>t_feeCollector = feeCollectorTrimmed, t_amount = transferAmount\<rparr>];
                      incomes1 =
                        (if list_ex (\<lambda>r. matches_name feeCollectorTrimmed (i_name r)) (incomes s)
                         then update_first (\<lambda>r. matches_name feeCollectorTrimmed (i_name r))
                                (\<lambda>r. r\<lparr>i_cashIncome := i_cashIncome r - transferAmount\<rparr>) (incomes s)
                         else incomes s
                                @ [\<lparr>i_name = feeCollectorTrimmed, i_cashIncome = - transferAmount,
                                    i_bankIncome = 0\<rparr>]);
                      incomes2 =
                        (if list_ex (\<lambda>r. matches_name ''Admin'' (i_name r)) incomes1
                         then update_first (\<lambda>r. matches_name ''Admin'' (i_name r))
                                (\<lambda>r. r\<lparr>i_cashIncome := i_cashIncome r + transferAmount\<rparr>) incomes1
                         else incomes1
                                @ [\<lparr>i_name = ''Admin'', i_cashIncome = transferAmount, i_bankIncome = 0\<rparr>])
                  in (Ok200, s\<lparr>incomes := incomes2, collections := collections'\<rparr>))"

subsection \<open>The rollover job \<^verbatim>\<open>moveTodayExpiredToUnpaid\<close>\<close>

datatype js_error = TypeError | ReferenceError

text \<open>
  \<^verbatim>\<open>parseExpiryYMD\<close>: the civil day of the stored expiry in the fixed zone. A
  \<^verbatim>\<open>Date\<close> object is accepted here.
\<close>

fun parseExpiryYMD :: "expiry \<Rightarrow> civil option" where
  "parseExpiryYMD ExpiryAbsent = None"
| "parseExpiryYMD (ExpiryText c) = Some c"
| "parseExpiryYMD (ExpiryDateObj c) = Some c"

definition isDateLTE :: "civil \<Rightarrow> civil \<Rightarrow> bool" where
  "isDateLTE ymd ref =
     (cy ymd < cy ref \<or> (cy ymd = cy ref \<and> cm ymd < cm ref)
      \<or> (cy ymd = cy ref \<and> cm ymd = cm ref \<and> cd ymd \<le> cd ref))"

text \<open>The query of the job: the statuses it lists, and every service status but inactive.\<close>

definition in_rollover_query :: "subscriber \<Rightarrow> bool" where
  "in_rollover_query u =
     ((u_status u = ''paid'' \<or> u_status u = ''partial'' \<or> u_status u = ''unpaid''
       \<or> u_status u = ''pending'' \<or> u_status u = ''superbalance'')
      \<and> u_serviceStatus u \<noteq> ''inactive'')"

definition expiredUsers :: "clock \<Rightarrow> db \<Rightarrow> subscriber list" where
  "expiredUsers clk s =
     filter (\<lambda>u. case parseExpiryYMD (u_expiryDate u) of
                   None \<Rightarrow> False
                 | Some ymd \<Rightarrow> isDateLTE ymd (c_today clk))
       (filter in_rollover_query (users s))"

text \<open>
  \<^verbatim>\<open>toLocaleDateString('en-US', { month: 'long', year: 'numeric' })\<close>: the month name
  and the year in decimal digits.
\<close>

fun decimal :: "nat \<Rightarrow> string" where
  "decimal n = (if n < 10 then [''0123456789'' ! n] else decimal (n div 10) @ [''0123456789'' ! (n mod 10)])"

declare decimal.simps [simp del]

definition monthName :: "civil \<Rightarrow> string" where
  "monthName c =
     [''January'', ''February'', ''March'', ''April'', ''May'', ''June'', ''July'', ''August'',
      ''September'', ''October'', ''November'', ''December''] ! nat (cm c - 1)
     @ '' '' @ decimal (nat (cy c))"

text \<open>
  \<^verbatim>\<open>nextExpiryDate.setMonth(nextExpiryDate.getMonth() + 1)\<close> on a valid date: the same
  day number in the following month, and when that month is shorter the date that many days
  past its end.
\<close>

definition nextExpiryDate :: "civil \<Rightarrow> civil" where
  "nextExpiryDate c =
     (let y1 = (if cm c = 12 then cy c + 1 else cy c);
          m1 = (if cm c = 12 then 1 else cm c + 1)
      in if cd c \<le> days_in_month y1 m1 then \<lparr>cy = y1, cm = m1, cd = cd c\<rparr>
         else \<lparr>cy = (if m1 = 12 then y1 + 1 else y1), cm = (if m1 = 12 then 1 else m1 + 1),
               cd = cd c - days_in_month y1 m1\<rparr>)"

text \<open>
  The unpaid month the job adds. \<open>toISO\<close> stands for \<^verbatim>\<open>toISOString\<close> of the local
  midnight of a date, which depends on the server's time zone.
\<close>

definition newMonth :: "clock \<Rightarrow> (civil \<Rightarrow> string) \<Rightarrow> subscriber \<Rightarrow> civil \<Rightarrow> month_entry" where
  "newMonth clk toISO user currentExpiryDate =
     (let packageFeePerMonth = u_amount user;
          discountPerMonth = u_discount user;
          remainingAfterDiscount = max 0 (packageFeePerMonth - discountPerMonth)
      in \<lparr>m_month = monthName currentExpiryDate,
          m_packageFee = packageFeePerMonth,
          m_discount = discountPerMonth,
          m_paidAmount = Some 0,
          m_remainingAmount = Some remainingAfterDiscount,
          m_status = ''unpaid'',
          m_paymentMethod = ''Pending'',
          m_receivedBy = [],
          m_paymentType = ''later'',
          m_paymentHistory = None,
          m_description = monthName currentExpiryDate @ '' - Pending Payment'',
          m_date = DateText (toISO currentExpiryDate),
          m_createdAt = DateObj (c_now clk),
          m_updatedAt = NoDate,
          m_refundDate = NoDate,
          m_refundedAmount = None\<rparr>)"

text \<open>
  The body of the loop for one subscriber of the batch, on the document read at the start
  of the run. The body's own \<^verbatim>\<open>parseDate\<close> calls \<^verbatim>\<open>split\<close> on the stored
  expiry: on a \<^verbatim>\<open>Date\<close> object that is a \<^verbatim>\<open>TypeError\<close>, raised before anything
  is written. \<open>ids\<close> gives the identifier of an inserted voucher.
\<close>

definition process_user ::
  "clock \<Rightarrow> (nat \<Rightarrow> string) \<Rightarrow> (civil \<Rightarrow> string) \<Rightarrow> db \<Rightarrow> subscriber \<Rightarrow> js_error + db" where
  "process_user clk ids toISO s user =
     (case u_expiryDate user of
        ExpiryDateObj d \<Rightarrow> Inl TypeError
      | ExpiryAbsent \<Rightarrow> Inl TypeError
      | ExpiryText currentExpiryDate \<Rightarrow>
         (let newExpiry = ExpiryText (nextExpiryDate currentExpiryDate);
              users' = update_first (\<lambda>u. u_id u = u_id user)
                         (\<lambda>u. u\<lparr>u_status := ''unpaid'', u_expiryDate := newExpiry,
                                u_showInExpiringSoon := False, u_unpaidSince := Some (c_now clk)\<rparr>)
                         (users s);
              month = newMonth clk toISO user currentExpiryDate
          in case find (\<lambda>v. v_userId v = u_id user) (vouchers s) of
               Some userVoucher \<Rightarrow>
                 (if list_ex (\<lambda>m. m_month m = m_month month) (months_of userVoucher)
                  then Inr (s\<lparr>users := users'\<rparr>)
                  else Inr (s\<lparr>users := users',
                             vouchers := update_first (\<lambda>v. v_userId v = u_id user)
                               (\<lambda>v. v\<lparr>v_months := Some (months_of v @ [month]), v_expiryDate := newExpiry\<rparr>)
                               (vouchers s)\<rparr>))
             | None \<Rightarrow>
                 Inr (s\<lparr>users := users',
                        vouchers := vouchers s
                          @ [\<lparr>v_id = ids (length (vouchers s)), v_userId = u_id user,
                              v_userName = u_userName user, v_packageName = u_packageName user,
                              v_rechargeDate = u_rechargeDate user, v_expiryDate = newExpiry,
                              v_months = Some [month], v_flat = empty_month, v_amount = 0\<rparr>]\<rparr>)))"

text \<open>
  The loop \<^verbatim>\<open>for (const user of expiredUsers)\<close> stands inside the single
  \<^verbatim>\<open>try\<close> of the job: the first error ends it. The result is the error the
  \<^verbatim>\<open>catch\<close> logs, if any, and the store as it then is.
\<close>

fun process_users ::
  "clock \<Rightarrow> (nat \<Rightarrow> string) \<Rightarrow> (civil \<Rightarrow> string) \<Rightarrow> db \<Rightarrow> subscriber list \<Rightarrow> js_error option \<times> db" where
  "process_users clk ids toISO s [] = (None, s)"
| "process_users clk ids toISO s (user # rest) =
     (case process_user clk ids toISO s user of
        Inl e \<Rightarrow> (Some e, s)
      | Inr s' \<Rightarrow> process_users clk ids toISO s' rest)"

definition moveTodayExpiredToUnpaid ::
  "clock \<Rightarrow> (nat \<Rightarrow> string) \<Rightarrow> (civil \<Rightarrow> string) \<Rightarrow> db \<Rightarrow> js_error option \<times> db" where
  "moveTodayExpiredToUnpaid clk ids toISO s =
     (if c_hour clk < 12 then (None, s)
      else process_users clk ids toISO s (expiredUsers clk s))"

subsection \<open>The rollover job when a call of the loop body fails\<close>

text \<open>
  The calls of the loop body that can throw once the expiry text has been parsed, in the
  order of the source: the subscriber update (8788), the voucher lookup (8801),
  \<^verbatim>\<open>toISOString\<close> on the parsed expiry (8818), and the voucher write (the \<^verbatim>\<open>$push\<close> at
  8828 or the insertion at 8855).
\<close>

datatype loop_call = UpdateUser | FindVoucher | ToISOString | WriteVoucher

text \<open>What the handler of the job catches: an error of the language, or a call that failed.\<close>

datatype job_error = Raised js_error | Failed loop_call

text \<open>
  The body of the loop, where \<open>fails i c\<close> says that the call \<open>c\<close> made for the subscriber
  \<open>i\<close> throws; a call that throws writes nothing. The result is the error thrown, if any,
  and the store as it is then: the body has no handler of its own and undoes nothing. An
  expiry text of the model is a civil date, for which \<^verbatim>\<open>toISOString\<close> returns; \<open>fails\<close>
  leaves open that it throws, as it does in the source on a text that \<^verbatim>\<open>parseDate\<close> turns
  into an invalid date.
\<close>

definition process_user_on ::
  "(string \<Rightarrow> loop_call \<Rightarrow> bool) \<Rightarrow> clock \<Rightarrow> (nat \<Rightarrow> string) \<Rightarrow> (civil \<Rightarrow> string) \<Rightarrow> db \<Rightarrow> subscriber
     \<Rightarrow> job_error option \<times> db" where
  "process_user_on fails clk ids toISO s user =
     (case u_expiryDate user of
        ExpiryDateObj d \<Rightarrow> (Some (Raised TypeError), s)
      | ExpiryAbsent \<Rightarrow> (Some (Raised TypeError), s)
      | ExpiryText currentExpiryDate \<Rightarrow>
         (let newExpiry = ExpiryText (nextExpiryDate currentExpiryDate);
              users' = update_first (\<lambda>u. u_id u = u_id user)
                         (\<lambda>u. u\<lparr>u_status := ''unpaid'', u_expiryDate := newExpiry,
                                u_showInExpiringSoon := False, u_unpaidSince := Some (c_now clk)\<rparr>)
                         (users s);
              month = newMonth clk toISO user currentExpiryDate
          in if fails (u_id user) UpdateUser then (Some (Failed UpdateUser), s)
             else if fails (u_id user) FindVoucher then (Some (Failed FindVoucher), s\<lparr>users := users'\<rparr>)
             else if fails (u_id user) ToISOString then (Some (Failed ToISOString), s\<lparr>users := users'\<rparr>)
             else case find (\<lambda>v. v_userId v = u_id user) (vouchers s) of
               Some userVoucher \<Rightarrow>
                 (if list_ex (\<lambda>m. m_month m = m_month month) (months_of userVoucher)
                  then (None, s\<lparr>users := users'\<rparr>)
                  else if fails (u_id user) WriteVoucher
                  then (Some (Failed WriteVoucher), s\<lparr>users := users'\<rparr>)
                  else (None, s\<lparr>users := users',
                             vouchers := update_first (\<lambda>v. v_userId v = u_id user)
                               (\<lambda>v. v\<lparr>v_months := Some (months_of v @ [month]), v_expiryDate := newExpiry\<rparr>)
                               (vouchers s)\<rparr>))
             | None \<Rightarrow>
                 (if fails (u_id user) WriteVoucher
                  then (Some (Failed WriteVoucher), s\<lparr>users := users'\<rparr>)
                  else (None, s\<lparr>users := users',
                        vouchers := vouchers s
                          @ [\<lparr>v_id = ids (length (vouchers s)), v_userId = u_id user,
                              v_userName = u_userName user, v_packageName = u_packageName user,
                              v_rechargeDate = u_rechargeDate user, v_expiryDate = newExpiry,
                              v_months = Some [month], v_flat = empty_month, v_amount = 0\<rparr>]\<rparr>))))"

text \<open>The loop: the first error leaves it, and the function, through the one handler.\<close>

fun process_users_on ::
  "(string \<Rightarrow> loop_call \<Rightarrow> bool) \<Rightarrow> clock \<Rightarrow> (nat \<Rightarrow> string) \<Rightarrow> (civil \<Rightarrow> string) \<Rightarrow> db \<Rightarrow> subscriber list
     \<Rightarrow> job_error option \<times> db" where
  "process_users_on fails clk ids toISO s [] = (None, s)"
| "process_users_on fails clk ids toISO s (user # rest) =
     (case process_user_on fails clk ids toISO s user of
        (Some e, s') \<Rightarrow> (Some e, s')
      | (None, s') \<Rightarrow> process_users_on fails clk ids toISO s' rest)"

definition moveTodayExpiredToUnpaid_on ::
  "(string \<Rightarrow> loop_call \<Rightarrow> bool) \<Rightarrow> clock \<Rightarrow> (nat \<Rightarrow> string) \<Rightarrow> (civil \<Rightarrow> string) \<Rightarrow> db
     \<Rightarrow> job_error option \<times> db" where
  "moveTodayExpiredToUnpaid_on fails clk ids toISO s =
     (if c_hour clk < 12 then (None, s)
      else process_users_on fails clk ids toISO s (expiredUsers clk s))"

subsection \<open>Notions used to state the theorems\<close>

text \<open>
  Between the incomes before and after an operation: the same records by position and name,
  and no cash or bank total that was at least zero has become negative.
\<close>

definition stays_nonnegative :: "income list \<Rightarrow> income list \<Rightarrow> bool" where
  "stays_nonnegative before after =
     list_all2 (\<lambda>a b. i_name b = i_name a
                  \<and> (0 \<le> i_cashIncome a \<longrightarrow> 0 \<le> i_cashIncome b)
                  \<and> (0 \<le> i_bankIncome a \<longrightarrow> 0 \<le> i_bankIncome b)) before after"

text \<open>The subscriber document after the job has processed it.\<close>

definition rolled :: "clock \<Rightarrow> civil \<Rightarrow> subscriber \<Rightarrow> subscriber" where
  "rolled clk e u =
     u\<lparr>u_status := ''unpaid'', u_expiryDate := ExpiryText (nextExpiryDate e),
       u_showInExpiringSoon := False, u_unpaidSince := Some (c_now clk)\<rparr>"

text \<open>The subscriber's voucher after the job has processed the subscriber.\<close>

definition rolled_voucher ::
  "clock \<Rightarrow> (civil \<Rightarrow> string) \<Rightarrow> subscriber \<Rightarrow> civil \<Rightarrow> voucher option \<Rightarrow> voucher \<Rightarrow> bool" where
  "rolled_voucher clk toISO u e before v' =
     (case before of
        Some v \<Rightarrow>
          v' = (if list_ex (\<lambda>m. m_month m = monthName e) (months_of v) then v
                else v\<lparr>v_months := Some (months_of v @ [newMonth clk toISO u e]),
                       v_expiryDate := ExpiryText (nextExpiryDate e)\<rparr>)
      | None \<Rightarrow>
          v_userId v' = u_id u \<and> v_months v' = Some [newMonth clk toISO u e]
          \<and> v_expiryDate v' = ExpiryText (nextExpiryDate e))"


text \<open>The conversion request without a new fee or discount.\<close>

definition convert_request_for :: "string \<Rightarrow> string \<Rightarrow> convert_request" where
  "convert_request_for uid label =
     \<lparr>cr_userId = uid, cr_month = label, cr_newPackageFee = None, cr_newDiscount = None\<rparr>"

subsection \<open>Example data\<close>

definition noon_clock :: clock where
  "noon_clock = \<lparr>c_now = 1762153200000, c_today = \<lparr>cy = 2025, cm = 11, cd = 3\<rparr>, c_hour = 12\<rparr>"

definition later_request :: user_request where
  "later_request =
     \<lparr>rq_userName = ''Aamir'', rq_packageName = ''10 MB'', rq_amount = 1500, rq_discount = 0,
      rq_numberOfMonths = Some 1, rq_rechargeDate = ''03-11-2025'',
      rq_expiryDate = ExpiryText \<lparr>cy = 2025, cm = 12, cd = 3\<rparr>,
      rq_status = [], rq_paymentType = ''later''\<rparr>"

text \<open>
  A voucher of subscriber u1 with an unpaid November, and incoming months for it. The
  entries carry no text dates, so the date parser is never asked: \<open>no_text\<close> stands for it.
\<close>

definition no_text :: "string \<Rightarrow> int" where
  "no_text t = 0"

definition nov_unpaid :: month_entry where
  "nov_unpaid = empty_month
     \<lparr>m_month := ''November 2025'', m_packageFee := 1500, m_paidAmount := Some 0,
      m_remainingAmount := Some 1500, m_status := ''unpaid'', m_paymentMethod := ''Cash'',
      m_receivedBy := ''Ali'', m_date := DateObj 1761591600000\<rparr>"



definition dec_unpaid :: month_entry where
  "dec_unpaid = empty_month
     \<lparr>m_month := ''December 2025'', m_packageFee := 1500, m_discount := 100,
      m_status := ''unpaid'', m_date := DateObj 1764183600000\<rparr>"

definition voucher_u1 :: voucher where
  "voucher_u1 =
     \<lparr>v_id = ''v1'', v_userId = ''u1'', v_userName = ''Aamir'', v_packageName = ''10 MB'',
      v_rechargeDate = ''28-10-2025'', v_expiryDate = ExpiryText \<lparr>cy = 2025, cm = 11, cd = 28\<rparr>,
      v_months = Some [nov_unpaid], v_flat = empty_month, v_amount = 0\<rparr>"

definition db_u1 :: db where
  "db_u1 = \<lparr>users = [], vouchers = [voucher_u1], incomes = [], collections = []\<rparr>"

text \<open>
  A month recorded with the advance-balance status, the subscriber u1 of that status, and two
  requests: a December payment received by Ali, and a January month whose discount exceeds
  its fee.
\<close>

definition nov_superbalance :: month_entry where
  "nov_superbalance = nov_unpaid
     \<lparr>m_status := ''superbalance'', m_paidAmount := Some 1500, m_remainingAmount := Some 0\<rparr>"

definition dec_payment :: month_entry where
  "dec_payment = dec_unpaid
     \<lparr>m_status := ''paid'', m_paidAmount := Some 1400, m_paymentMethod := ''Cash'',
      m_receivedBy := ''Ali''\<rparr>"

definition jan_superbalance :: month_entry where
  "jan_superbalance = empty_month
     \<lparr>m_month := ''January 2026'', m_packageFee := 1000, m_discount := 1500,
      m_status := ''superbalance'', m_date := DateObj 1766862000000\<rparr>"

definition user_u1 :: subscriber where
  "user_u1 =
     \<lparr>u_id = ''u1'', u_userName = ''Aamir'', u_packageName = ''10 MB'', u_amount = 1500,
      u_discount = 0, u_totalAmount = 1500, u_numberOfMonths = 1, u_rechargeDate = ''28-10-2025'',
      u_expiryDate = ExpiryText \<lparr>cy = 2025, cm = 11, cd = 28\<rparr>, u_status = ''superbalance'',
      u_serviceStatus = ''active'', u_paidAmount = 1500, u_remainingAmount = 0,
      u_unpaidSince = None, u_showInExpiringSoon = False\<rparr>"

definition db_superbalance :: db where
  "db_superbalance =
     \<lparr>users = [user_u1], vouchers = [voucher_u1\<lparr>v_months := Some [nov_superbalance]\<rparr>],
      incomes = [\<lparr>i_name = ''Ali'', i_cashIncome = 1500, i_bankIncome = 0\<rparr>], collections = []\<rparr>"

definition request_u1 :: "month_entry list \<Rightarrow> voucher_request" where
  "request_u1 ms =
     \<lparr>vr_userId = ''u1'', vr_userName = ''Aamir'', vr_rechargeDate = [],
      vr_expiryDate = ExpiryAbsent, vr_months = ms\<rparr>"

definition update_with :: "month_entry list \<Rightarrow> voucher_update" where
  "update_with ms = \<lparr>vu_months = ms, vu_rechargeDate = None, vu_expiryDate = None\<rparr>"

text \<open>
  A paid October, a November charged by the rollover to a subscriber whose discount equals
  the fee, the store of u1 over given months, and the request that converts October.
\<close>

definition oct_paid :: month_entry where
  "oct_paid = empty_month
     \<lparr>m_month := ''October 2025'', m_packageFee := 1500, m_paidAmount := Some 1500,
      m_remainingAmount := Some 0, m_status := ''paid'', m_paymentMethod := ''Cash'',
      m_receivedBy := ''Ali'', m_date := DateObj 1758999600000\<rparr>"

definition nov_free :: month_entry where
  "nov_free = empty_month
     \<lparr>m_month := ''November 2025'', m_packageFee := 1500, m_discount := 1500,
      m_paidAmount := Some 0, m_remainingAmount := Some 0, m_status := ''unpaid'',
      m_paymentMethod := ''Pending'', m_paymentType := ''later'',
      m_date := DateObj 1761591600000\<rparr>"

definition db_months :: "month_entry list \<Rightarrow> db" where
  "db_months ms =
     \<lparr>users = [user_u1\<lparr>u_status := ''paid''\<rparr>], vouchers = [voucher_u1\<lparr>v_months := Some ms\<rparr>],
      incomes = [\<lparr>i_name = ''Ali'', i_cashIncome = 1500, i_bankIncome = 0\<rparr>], collections = []\<rparr>"

definition convert_october :: convert_request where
  "convert_october =
     \<lparr>cr_userId = ''u1'', cr_month = ''October 2025'', cr_newPackageFee = None, cr_newDiscount = None\<rparr>"

text \<open>
  The store of u1 with a paid October received by Ali and an unpaid November, over a given
  cash income of Ali, and the re-payment of October.
\<close>

definition ali_income :: "int \<Rightarrow> int \<Rightarrow> income" where
  "ali_income cash bank = \<lparr>i_name = ''Ali'', i_cashIncome = cash, i_bankIncome = bank\<rparr>"

definition db_ali :: "int \<Rightarrow> db" where
  "db_ali cash = (db_months [oct_paid, nov_unpaid])\<lparr>incomes := [ali_income cash 0]\<rparr>"

definition oct_repay :: month_entry where
  "oct_repay = empty_month
     \<lparr>m_month := ''October 2025'', m_packageFee := 1500, m_paidAmount := Some 1500,
      m_status := ''paid'', m_paymentMethod := ''Cash'', m_receivedBy := ''Ali''\<rparr>"

definition transfer_ali :: transfer_request where
  "transfer_ali = \<lparr>tq_feeCollector = ''Ali'', tq_amount = 1000\<rparr>"

text \<open>
  Rollover runs at noon of a given day; identifiers for inserted vouchers; a stand-in for
  the ISO rendering of a date; subscribers like u1 with a given identifier, status and
  expiry; and the store of such subscribers where u1 has a voucher with a paid October.
\<close>

definition rollover_clock :: "civil \<Rightarrow> clock" where
  "rollover_clock d = \<lparr>c_now = 1764313200000, c_today = d, c_hour = 12\<rparr>"

definition new_ids :: "nat \<Rightarrow> string" where
  "new_ids k = ''w'' @ decimal k"

definition iso_sample :: "civil \<Rightarrow> string" where
  "iso_sample c = decimal (nat (cy c)) @ ''-'' @ decimal (nat (cm c)) @ ''-'' @ decimal (nat (cd c))"

definition user_expiring :: "string \<Rightarrow> string \<Rightarrow> expiry \<Rightarrow> subscriber" where
  "user_expiring i st e = user_u1\<lparr>u_id := i, u_status := st, u_expiryDate := e\<rparr>"

definition nov28 :: civil where
  "nov28 = \<lparr>cy = 2025, cm = 11, cd = 28\<rparr>"

definition db_rollover :: "subscriber list \<Rightarrow> db" where
  "db_rollover us = \<lparr>users = us, vouchers = [voucher_u1\<lparr>v_months := Some [oct_paid]\<rparr>], incomes = [], collections = []\<rparr>"

definition jan31 :: civil where
  "jan31 = \<lparr>cy = 2025, cm = 1, cd = 31\<rparr>"

definition jan15 :: civil where
  "jan15 = \<lparr>cy = 2025, cm = 1, cd = 15\<rparr>"

definition mar20 :: civil where
  "mar20 = \<lparr>cy = 2025, cm = 3, cd = 20\<rparr>"

text \<open>The voucher lookup made for the subscriber u1 fails, and no other call does.\<close>

definition lookup_fails_u1 :: "string \<Rightarrow> loop_call \<Rightarrow> bool" where
  "lookup_fails_u1 i c = (i = ''u1'' \<and> c = FindVoucher)"

section \<open>Theorems\<close>

subsection \<open>Subscriber creation\<close>

lemma newUser_status: "u_status (newUser clk i rq) = fst (paymentStatus rq)"
  by (simp add: newUser_def split: prod.splits)

lemma newUser_paid: "u_paidAmount (newUser clk i rq) = fst (snd (paymentStatus rq))"
  by (simp add: newUser_def split: prod.splits)

text \<open>
  C6. Creation-time status. Every request with a name inserts one subscriber. Its status is
  pending when pending is requested; otherwise, for payment type now, paid when the month
  count is 1 and partial when it exceeds 1, with the paid amount one month's fee less the
  discount; otherwise, for payment type later, unpaid. The status is the same for every
  expiry date and every clock, so also for an expiry in the future.
\<close>

theorem creation_status:
  assumes "rq_userName rq \<noteq> []"
  shows "post_users clk i rq s = (Created201, s\<lparr>users := users s @ [newUser clk i rq]\<rparr>)
    \<and> (rq_status rq = ''pending'' \<longrightarrow> u_status (newUser clk i rq) = ''pending'')
    \<and> (rq_status rq \<noteq> ''pending'' \<and> rq_paymentType rq = ''now'' \<longrightarrow>
          (rq_numberOfMonths rq = Some 1 \<longrightarrow> u_status (newUser clk i rq) = ''paid'')
        \<and> (\<forall>n. rq_numberOfMonths rq = Some n \<and> 1 < n \<longrightarrow> u_status (newUser clk i rq) = ''partial'')
        \<and> u_paidAmount (newUser clk i rq) = rq_amount rq - rq_discount rq)
    \<and> (rq_status rq \<noteq> ''pending'' \<and> rq_paymentType rq = ''later'' \<longrightarrow>
          u_status (newUser clk i rq) = ''unpaid'')
    \<and> (\<forall>clk' i' e. u_status (newUser clk' i' (rq\<lparr>rq_expiryDate := e\<rparr>)) = u_status (newUser clk i rq))"
  using assms
  by (simp add: post_users_def newUser_status newUser_paid paymentStatus_def Let_def
      more_than_one_def)

text \<open>
  The theorem at three requests made at noon of 3 November 2025: pay later with an expiry a
  month ahead, pay now for three months, and pending.
\<close>

theorem creation_status_witness:
  "rq_userName later_request \<noteq> []
   \<and> isFutureExpiry (parseExpiryDate (rq_expiryDate later_request)) (c_today noon_clock)
   \<and> u_status (newUser noon_clock ''u1'' later_request) = ''unpaid''
   \<and> u_status (newUser noon_clock ''u1''
        (later_request\<lparr>rq_paymentType := ''now'', rq_numberOfMonths := Some 3, rq_discount := 100\<rparr>)) = ''partial''
   \<and> u_paidAmount (newUser noon_clock ''u1''
        (later_request\<lparr>rq_paymentType := ''now'', rq_numberOfMonths := Some 3, rq_discount := 100\<rparr>)) = 1400
   \<and> u_status (newUser noon_clock ''u1'' (later_request\<lparr>rq_paymentType := ''now''\<rparr>)) = ''paid''
   \<and> u_status (newUser noon_clock ''u1'' (later_request\<lparr>rq_status := ''pending''\<rparr>)) = ''pending''"
  using creation_status [of later_request noon_clock "''u1''"]
    creation_status [of "later_request\<lparr>rq_paymentType := ''now'', rq_numberOfMonths := Some 3, rq_discount := 100\<rparr>" noon_clock "''u1''"]
    creation_status [of "later_request\<lparr>rq_paymentType := ''now''\<rparr>" noon_clock "''u1''"]
    creation_status [of "later_request\<lparr>rq_status := ''pending''\<rparr>" noon_clock "''u1''"]
  by (simp add: later_request_def noon_clock_def isFutureExpiry_def)

subsection \<open>Store primitives\<close>

lemma findIndex_Some:
  "findIndex P xs = Some i \<Longrightarrow> i < length xs \<and> P (xs ! i)"
  by (induction xs arbitrary: i) (auto split: if_splits)


lemma find_update_first_same:
  "(\<And>x. P x \<Longrightarrow> P (f x)) \<Longrightarrow> find P (update_first P f xs) = map_option f (find P xs)"
  by (induction xs) auto

lemma find_update_first_other:
  "(\<And>x. Q (f x) = Q x) \<Longrightarrow> (\<And>x. P x \<Longrightarrow> \<not> Q x) \<Longrightarrow> find Q (update_first P f xs) = find Q xs"
  by (induction xs) auto

subsection \<open>The smart merge\<close>













lemma smart_merge_Cons:
  "smart_merge clk ms [] = ms \<and> smart_merge clk ms (inc # rest) = smart_merge clk (merge_step clk ms inc) rest"
  by (simp add: smart_merge_def)











subsection \<open>Superbalance months in POST /api/vouchers\<close>

text \<open>
  C2 at a failing input. The voucher of u1 holds an unpaid November; the request adds a
  January month of status superbalance with fee 1000 and discount 1500. The stored January is
  unpaid, not reversed, with paid amount 0 and remaining amount -500, where
  max(0, packageFee - discount - paidAmount) is 0.
\<close>

theorem superbalance_remaining_negative:
  "map (\<lambda>v. map (\<lambda>m. (m_month m, m_status m, isReversed m, m_paidAmount m, m_remainingAmount m,
                      max 0 (m_packageFee m - m_discount m - num0 (m_paidAmount m))))
             (months_of v))
     (vouchers (snd (post_vouchers noon_clock no_text ''v2'' (request_u1 [jan_superbalance]) db_u1)))
   = [[(''November 2025'', ''unpaid'', False, Some 0, Some 1500, 1500),
       (''January 2026'', ''unpaid'', False, Some 0, Some (- 500), 0)]]"
  by (simp add: post_vouchers_def db_u1_def voucher_u1_def jan_superbalance_def nov_unpaid_def
      empty_month_def request_u1_def months_of_def sortMonths_def smart_merge_def merge_step_def
      add_new_def convert_superbalance_def hasSuperBalanceConverted_def isReversed_def num0_def
      or_text_def or_date_def or_expiry_def truthy_date_def chargeTime_def Let_def)

text \<open>
  C10 at a failing input. The voucher of u1 holds a superbalance November and the request
  records a paid December received by Ali. The handler stores the converted months and then
  answers 500: the subscriber keeps the status superbalance and the remaining amount 0, and
  Ali's income is not credited. The same months sent to PUT /api/vouchers/:id are merged
  with the answer 200 and the November month stays superbalance.
\<close>

theorem superbalance_merge_fails:
  "fst (post_vouchers noon_clock no_text ''v2'' (request_u1 [dec_payment]) db_superbalance)
     = ServerError500
   \<and> map (\<lambda>v. map (\<lambda>m. (m_month m, m_status m, m_paidAmount m, m_remainingAmount m)) (months_of v))
       (vouchers (snd (post_vouchers noon_clock no_text ''v2'' (request_u1 [dec_payment]) db_superbalance)))
     = [[(''November 2025'', ''unpaid'', Some 0, Some 1500),
         (''December 2025'', ''paid'', Some 1400, Some 0)]]
   \<and> map (\<lambda>u. (u_status u, u_remainingAmount u))
       (users (snd (post_vouchers noon_clock no_text ''v2'' (request_u1 [dec_payment]) db_superbalance)))
     = [(''superbalance'', 0)]
   \<and> incomes (snd (post_vouchers noon_clock no_text ''v2'' (request_u1 [dec_payment]) db_superbalance))
     = incomes db_superbalance
   \<and> fst (put_voucher noon_clock no_text ''v1'' (update_with [dec_payment]) db_superbalance) = Ok200
   \<and> map (\<lambda>v. map (\<lambda>m. (m_month m, m_status m)) (months_of v))
       (vouchers (snd (put_voucher noon_clock no_text ''v1'' (update_with [dec_payment]) db_superbalance)))
     = [[(''November 2025'', ''superbalance''), (''December 2025'', ''paid'')]]"
  by (simp add: post_vouchers_def put_voucher_def update_with_def db_superbalance_def voucher_u1_def user_u1_def dec_payment_def
      dec_unpaid_def nov_superbalance_def nov_unpaid_def empty_month_def request_u1_def
      months_of_def sortMonths_def smart_merge_def merge_step_def add_new_def
      convert_superbalance_def hasSuperBalanceConverted_def num0_def or_text_def or_date_def
      or_expiry_def truthy_date_def chargeTime_def Let_def)

subsection \<open>The subscriber's status from the voucher months\<close>

lemma foldl_recalc_entry:
  "foldl recalc_entry (tp, tr, hu) es =
     (tp + sum_list (map (\<lambda>m. num0 (m_paidAmount m)) (filter (\<lambda>m. \<not> isReversed m) es)),
      tr + sum_list (map monthRemaining (filter (\<lambda>m. \<not> isReversed m) es)),
      hu \<or> list_ex (\<lambda>m. m_status m = ''unpaid'') (filter (\<lambda>m. \<not> isReversed m) es))"
  by (induction es arbitrary: tp tr hu) (auto simp: recalc_entry_def)

lemma recalc_totals_eq:
  "recalc_totals vs =
     (sum_list (map (\<lambda>m. num0 (m_paidAmount m)) (filter (\<lambda>m. \<not> isReversed m) (concat (map recalc_entries vs)))),
      sum_list (map monthRemaining (filter (\<lambda>m. \<not> isReversed m) (concat (map recalc_entries vs)))),
      list_ex (\<lambda>m. m_status m = ''unpaid'') (filter (\<lambda>m. \<not> isReversed m) (concat (map recalc_entries vs))))"
  by (simp add: recalc_totals_def foldl_recalc_entry)

lemma convert_to_unpaid_cases:
  assumes "fst (convert_to_unpaid clk rq s) = Ok200"
  shows "\<exists>voucher months i. cr_userId rq \<noteq> [] \<and> cr_month rq \<noteq> []
     \<and> find (\<lambda>v. v_userId v = cr_userId rq) (vouchers s) = Some voucher
     \<and> v_months voucher = Some months
     \<and> findIndex (\<lambda>m. m_month m = cr_month rq) months = Some i"
  using assms
  by (auto simp: convert_to_unpaid_def split: if_splits option.splits)

lemma convert_to_unpaid_result:
  assumes "cr_userId rq \<noteq> []" "cr_month rq \<noteq> []"
    and "find (\<lambda>v. v_userId v = cr_userId rq) (vouchers s) = Some voucher"
    and "v_months voucher = Some months"
    and "findIndex (\<lambda>m. m_month m = cr_month rq) months = Some i"
  shows "convert_to_unpaid clk rq s =
     (Ok200, s\<lparr>users := update_first (\<lambda>u. u_id u = cr_userId rq)
                 (\<lambda>u. u\<lparr>u_status := fst (convert_status (convert_result clk rq months i)),
                        u_paidAmount := fst (snd (convert_status (convert_result clk rq months i))),
                        u_remainingAmount := snd (snd (convert_status (convert_result clk rq months i)))\<rparr>) (users s),
             vouchers := update_first (\<lambda>v. v_userId v = cr_userId rq)
                 (\<lambda>v. v\<lparr>v_months := Some (convert_result clk rq months i)\<rparr>) (vouchers s),
             incomes := deduct_income (m_receivedBy (months ! i)) (or_text (m_paymentMethod (months ! i)) ''Cash'')
                 (num0 (m_paidAmount (months ! i))) (incomes s)\<rparr>)"
  using assms
  by (simp add: convert_to_unpaid_def convert_result_def Let_def split: prod.splits)

text \<open>
  C1 (amended). After a status recalculation of a subscriber, if some entry of the
  subscriber's vouchers that does not count as reversed has status unpaid and the remaining
  amounts of the entries that do not count as reversed sum to more than zero, the stored
  status is unpaid. After a successful convert-to-unpaid, if some month of the stored voucher
  that does not count as reversed has status unpaid, the stored status is unpaid. (The
  converted month itself carries a refund date and counts as reversed.)
\<close>

theorem unpaid_month_dominates:
  "(find (\<lambda>u. u_id u = uid) (users s) = Some user
      \<and> m \<in> set (concat (map recalc_entries (filter (\<lambda>v. v_userId v = uid) (vouchers s))))
      \<and> \<not> isReversed m \<and> m_status m = ''unpaid''
      \<and> 0 < sum_list (map monthRemaining (filter (\<lambda>m. \<not> isReversed m)
               (concat (map recalc_entries (filter (\<lambda>v. v_userId v = uid) (vouchers s))))))
     \<longrightarrow> fst (recalculate_status uid s) = Ok200
       \<and> map_option u_status (find (\<lambda>u. u_id u = uid) (users (snd (recalculate_status uid s))))
           = Some ''unpaid'')
   \<and> (fst (convert_to_unpaid clk rq s) = Ok200
      \<and> find (\<lambda>u. u_id u = cr_userId rq) (users s) = Some user'
      \<and> find (\<lambda>v. v_userId v = cr_userId rq) (vouchers (snd (convert_to_unpaid clk rq s))) = Some v'
      \<and> m' \<in> set (months_of v') \<and> \<not> isReversed m' \<and> m_status m' = ''unpaid''
     \<longrightarrow> map_option u_status
           (find (\<lambda>u. u_id u = cr_userId rq) (users (snd (convert_to_unpaid clk rq s))))
           = Some ''unpaid'')"
proof (intro conjI impI)
  assume a: "find (\<lambda>u. u_id u = uid) (users s) = Some user
      \<and> m \<in> set (concat (map recalc_entries (filter (\<lambda>v. v_userId v = uid) (vouchers s))))
      \<and> \<not> isReversed m \<and> m_status m = ''unpaid''
      \<and> 0 < sum_list (map monthRemaining (filter (\<lambda>m. \<not> isReversed m)
               (concat (map recalc_entries (filter (\<lambda>v. v_userId v = uid) (vouchers s))))))"
  let ?vs = "filter (\<lambda>v. v_userId v = uid) (vouchers s)"
  let ?es = "filter (\<lambda>m. \<not> isReversed m) (concat (map recalc_entries ?vs))"
  from a have ne: "?vs \<noteq> []" by auto
  from a have "m \<in> set ?es" by simp
  with a have ex: "list_ex (\<lambda>m. m_status m = ''unpaid'') ?es"
    unfolding list_ex_iff by blast
  from a have pos: "0 < sum_list (map monthRemaining ?es)" by simp
  have st: "calculatedStatus (recalc_totals ?vs) = ''unpaid''"
    using ex pos by (simp add: recalc_totals_eq calculatedStatus_def)
  have res: "recalculate_status uid s =
      (Ok200, s\<lparr>users := update_first (\<lambda>u. u_id u = uid)
          (\<lambda>u. u\<lparr>u_status := calculatedStatus (recalc_totals ?vs), u_paidAmount := fst (recalc_totals ?vs),
                 u_remainingAmount := fst (snd (recalc_totals ?vs))\<rparr>) (users s)\<rparr>)"
    using a ne by (simp add: recalculate_status_def Let_def)
  show "fst (recalculate_status uid s) = Ok200" by (simp add: res)
  show "map_option u_status (find (\<lambda>u. u_id u = uid) (users (snd (recalculate_status uid s))))
           = Some ''unpaid''"
    using a by (simp add: res find_update_first_same st)
next
  assume b: "fst (convert_to_unpaid clk rq s) = Ok200
      \<and> find (\<lambda>u. u_id u = cr_userId rq) (users s) = Some user'
      \<and> find (\<lambda>v. v_userId v = cr_userId rq) (vouchers (snd (convert_to_unpaid clk rq s))) = Some v'
      \<and> m' \<in> set (months_of v') \<and> \<not> isReversed m' \<and> m_status m' = ''unpaid''"
  then obtain voucher months i where c: "cr_userId rq \<noteq> []" "cr_month rq \<noteq> []"
      "find (\<lambda>v. v_userId v = cr_userId rq) (vouchers s) = Some voucher"
      "v_months voucher = Some months"
      "findIndex (\<lambda>m. m_month m = cr_month rq) months = Some i"
    using convert_to_unpaid_cases by blast
  note res = convert_to_unpaid_result [OF c, of clk]
  let ?ms = "convert_result clk rq months i"
  from b c(3) have "v' = voucher\<lparr>v_months := Some ?ms\<rparr>"
    by (simp add: res find_update_first_same)
  then have "months_of v' = ?ms" by (simp add: months_of_def)
  with b have "m' \<in> set (filter (\<lambda>m. \<not> isReversed m) ?ms)" by simp
  with b have "list_ex (\<lambda>m. m_status m = ''unpaid'') (filter (\<lambda>m. \<not> isReversed m) ?ms)"
    unfolding list_ex_iff by blast
  then have "fst (convert_status ?ms) = ''unpaid''"
    by (simp add: convert_status_def Let_def)
  then show "map_option u_status
           (find (\<lambda>u. u_id u = cr_userId rq) (users (snd (convert_to_unpaid clk rq s))))
           = Some ''unpaid''"
    using b by (simp add: res find_update_first_same)
qed

text \<open>
  The theorem at the store of u1 with a paid October and an unpaid November of 1500: both
  the recalculation and the conversion of October store the status unpaid.
\<close>

theorem unpaid_month_dominates_witness:
  "find (\<lambda>u. u_id u = ''u1'') (users (db_months [oct_paid, nov_unpaid])) = Some (user_u1\<lparr>u_status := ''paid''\<rparr>)
   \<and> nov_unpaid \<in> set (concat (map recalc_entries
        (filter (\<lambda>v. v_userId v = ''u1'') (vouchers (db_months [oct_paid, nov_unpaid])))))
   \<and> \<not> isReversed nov_unpaid \<and> m_status nov_unpaid = ''unpaid''
   \<and> sum_list (map monthRemaining (filter (\<lambda>m. \<not> isReversed m) (concat (map recalc_entries
        (filter (\<lambda>v. v_userId v = ''u1'') (vouchers (db_months [oct_paid, nov_unpaid]))))))) = 1500
   \<and> map u_status (users (snd (recalculate_status ''u1'' (db_months [oct_paid, nov_unpaid])))) = [''unpaid'']
   \<and> fst (convert_to_unpaid noon_clock convert_october (db_months [oct_paid, nov_unpaid])) = Ok200
   \<and> map (\<lambda>v. map (\<lambda>m. (m_month m, m_status m, isReversed m)) (months_of v))
        (vouchers (snd (convert_to_unpaid noon_clock convert_october (db_months [oct_paid, nov_unpaid]))))
      = [[(''October 2025'', ''unpaid'', True), (''November 2025'', ''unpaid'', False)]]
   \<and> map u_status (users (snd (convert_to_unpaid noon_clock convert_october (db_months [oct_paid, nov_unpaid]))))
      = [''unpaid'']"
  using unpaid_month_dominates [of "''u1''" "db_months [oct_paid, nov_unpaid]" "user_u1\<lparr>u_status := ''paid''\<rparr>"
      nov_unpaid noon_clock convert_october "user_u1\<lparr>u_status := ''paid''\<rparr>"
      "voucher_u1\<lparr>v_months := Some (convert_result noon_clock convert_october [oct_paid, nov_unpaid] 0)\<rparr>"
      nov_unpaid]
  by (simp add: db_months_def user_u1_def voucher_u1_def oct_paid_def nov_unpaid_def empty_month_def
      convert_october_def noon_clock_def recalculate_status_def recalc_totals_def recalc_entries_def
      recalc_entry_def calculatedStatus_def monthRemaining_def isReversed_def truthy_date_def num0_def
      convert_to_unpaid_def convert_result_def converted_month_def convert_status_def
      deduct_income_def or_text_def months_of_def Let_def)

text \<open>
  C1 as stated fails: the only month of u1 is an unpaid November that does not count as
  reversed, with fee 1500, discount 1500 and remaining amount 0, and the recalculation stores
  the status paid.
\<close>

theorem unpaid_month_counterexample:
  "map (\<lambda>v. map (\<lambda>m. (m_month m, m_status m, isReversed m)) (months_of v))
       (vouchers (snd (recalculate_status ''u1'' (db_months [nov_free]))))
     = [[(''November 2025'', ''unpaid'', False)]]
   \<and> map u_status (users (snd (recalculate_status ''u1'' (db_months [nov_free])))) = [''paid'']"
  by (simp add: db_months_def user_u1_def voucher_u1_def nov_free_def empty_month_def
      recalculate_status_def recalc_totals_def recalc_entries_def recalc_entry_def
      calculatedStatus_def monthRemaining_def isReversed_def truthy_date_def num0_def
      months_of_def Let_def)

text \<open>
  The status stored after processing reversed payments, on a paid October and an unpaid
  November of 1500: partial.
\<close>

lemma process_payment_status_example:
  "process_payment_status (vouchers (db_months [oct_paid, nov_unpaid])) = (''partial'', 1500, 1500)"
  by (simp add: process_payment_status_def db_months_def voucher_u1_def oct_paid_def nov_unpaid_def
      empty_month_def months_of_def isReversed_def truthy_date_def num0_def Let_def)

subsection \<open>Income debits\<close>

lemma stays_nonnegative_refl: "stays_nonnegative xs xs"
  by (simp add: stays_nonnegative_def list_all2_same)

lemma stays_nonnegative_trans:
  "stays_nonnegative xs ys \<Longrightarrow> stays_nonnegative ys zs \<Longrightarrow> stays_nonnegative xs zs"
  by (auto simp: stays_nonnegative_def list_all2_conv_all_nth)

lemma stays_nonnegative_update_first:
  assumes "\<And>x. i_name (f x) = i_name x"
    and "\<And>x. 0 \<le> i_cashIncome x \<Longrightarrow> 0 \<le> i_cashIncome (f x)"
    and "\<And>x. 0 \<le> i_bankIncome x \<Longrightarrow> 0 \<le> i_bankIncome (f x)"
  shows "stays_nonnegative xs (update_first P f xs)"
  unfolding stays_nonnegative_def
  by (induction xs) (auto simp: assms list_all2_same)

lemma deduct_income_nonnegative: "stays_nonnegative inc (deduct_income r pm a inc)"
  by (auto simp: deduct_income_def Let_def stays_nonnegative_refl
      intro!: stays_nonnegative_update_first split: option.splits)

lemma apply_deduction_nonnegative: "stays_nonnegative inc (apply_deduction inc d)"
  by (auto simp: apply_deduction_def stays_nonnegative_refl
      intro!: stays_nonnegative_update_first split: option.splits prod.splits)

lemma foldl_apply_deduction_nonnegative: "stays_nonnegative inc (foldl apply_deduction inc ds)"
proof (induction ds arbitrary: inc)
  case Nil
  show ?case by (simp add: stays_nonnegative_refl)
next
  case (Cons d ds)
  show ?case
    using stays_nonnegative_trans [OF apply_deduction_nonnegative Cons.IH] by simp
qed

lemma convert_to_unpaid_incomes:
  "stays_nonnegative (incomes s) (incomes (snd (convert_to_unpaid clk rq s)))"
proof (cases "fst (convert_to_unpaid clk rq s) = Ok200")
  case True
  then obtain voucher months i where c: "cr_userId rq \<noteq> []" "cr_month rq \<noteq> []"
      "find (\<lambda>v. v_userId v = cr_userId rq) (vouchers s) = Some voucher"
      "v_months voucher = Some months"
      "findIndex (\<lambda>m. m_month m = cr_month rq) months = Some i"
    using convert_to_unpaid_cases by blast
  show ?thesis
    by (simp add: convert_to_unpaid_result [OF c] deduct_income_nonnegative)
next
  case False
  then have "snd (convert_to_unpaid clk rq s) = s"
    by (auto simp: convert_to_unpaid_def Let_def split: option.splits prod.splits if_splits)
  then show ?thesis by (simp add: stays_nonnegative_refl)
qed

lemma delete_user_incomes:
  "stays_nonnegative (incomes s) (incomes (snd (delete_user uid s)))"
  by (simp add: delete_user_def Let_def foldl_apply_deduction_nonnegative)

lemma deduct_income_clamps:
  assumes "find (\<lambda>r. i_name r = rb) inc = Some rec" and "0 < a" and "rb \<noteq> []"
  shows "find (\<lambda>r. i_name r = rb) (deduct_income rb pm a inc)
     = Some (if includes_text (toLowerCase pm) ''bank''
             then rec\<lparr>i_bankIncome := max 0 (i_bankIncome rec - a)\<rparr>
             else rec\<lparr>i_cashIncome := max 0 (i_cashIncome rec - a)\<rparr>)"
  using assms by (simp add: deduct_income_def Let_def find_update_first_same)

lemma apply_deduction_clamps:
  assumes "find (\<lambda>r. matches_name (trim rb) (i_name r)) inc = Some cur" and "0 < c \<or> 0 < b"
  shows "find (\<lambda>r. matches_name (trim rb) (i_name r)) (apply_deduction inc (rb, c, b))
     = Some (cur\<lparr>i_cashIncome := max 0 (i_cashIncome cur - c),
                 i_bankIncome := max 0 (i_bankIncome cur - b)\<rparr>)"
  using assms by (auto simp add: apply_deduction_def find_update_first_same)

text \<open>
  C8 (amended). The debits of convert-to-unpaid and of the subscriber deletion keep every
  income record in place and never turn a cash or bank total that was at least zero into a
  negative one; the total they lower becomes max(0, total - amount): in convert-to-unpaid the
  bank or the cash total of the first record named as the month's receiver, in the deletion
  both totals of the first record that matches the receiver up to letter case.
\<close>

theorem debits_clamped:
  "stays_nonnegative (incomes s) (incomes (snd (convert_to_unpaid clk rq s)))
   \<and> stays_nonnegative (incomes s) (incomes (snd (delete_user uid s)))
   \<and> (find (\<lambda>r. i_name r = rb) inc = Some rec \<and> 0 < a \<and> rb \<noteq> [] \<longrightarrow>
        find (\<lambda>r. i_name r = rb) (deduct_income rb pm a inc)
          = Some (if includes_text (toLowerCase pm) ''bank''
                  then rec\<lparr>i_bankIncome := max 0 (i_bankIncome rec - a)\<rparr>
                  else rec\<lparr>i_cashIncome := max 0 (i_cashIncome rec - a)\<rparr>))
   \<and> (find (\<lambda>r. matches_name (trim rb') (i_name r)) inc' = Some cur \<and> (0 < c \<or> 0 < b) \<longrightarrow>
        find (\<lambda>r. matches_name (trim rb') (i_name r)) (apply_deduction inc' (rb', c, b))
          = Some (cur\<lparr>i_cashIncome := max 0 (i_cashIncome cur - c),
                      i_bankIncome := max 0 (i_bankIncome cur - b)\<rparr>))"
  using convert_to_unpaid_incomes delete_user_incomes deduct_income_clamps apply_deduction_clamps
  by blast

text \<open>
  The theorem at the store of u1 where Ali, who received the 1500 of October, has a cash
  income of 1000: the conversion of October and the deletion of u1 both leave Ali at 0.
\<close>

theorem debits_clamped_witness:
  "find (\<lambda>r. i_name r = ''Ali'') [ali_income 1000 0] = Some (ali_income 1000 0)
   \<and> find (\<lambda>r. matches_name (trim ''Ali'') (i_name r)) [ali_income 1000 0] = Some (ali_income 1000 0)
   \<and> deduct_income ''Ali'' ''Cash'' 1500 [ali_income 1000 0] = [ali_income 0 0]
   \<and> apply_deduction [ali_income 1000 0] (''Ali'', 1500, 0) = [ali_income 0 0]
   \<and> incomes (db_ali 1000) = [ali_income 1000 0]
   \<and> incomes (snd (convert_to_unpaid noon_clock convert_october (db_ali 1000))) = [ali_income 0 0]
   \<and> incomes (snd (delete_user ''u1'' (db_ali 1000))) = [ali_income 0 0]
   \<and> stays_nonnegative [ali_income 1000 0] [ali_income 0 0]"
  using debits_clamped [where s = "db_ali 1000" and clk = noon_clock and rq = convert_october
      and uid = "''u1''" and rb = "''Ali''" and inc = "[ali_income 1000 0]"
      and rec = "ali_income 1000 0" and a = 1500 and pm = "''Cash''" and rb' = "''Ali''"
      and inc' = "[ali_income 1000 0]" and cur = "ali_income 1000 0" and c = 1500 and b = 0]
  by (simp add: db_ali_def ali_income_def db_months_def user_u1_def voucher_u1_def oct_paid_def
      nov_unpaid_def empty_month_def convert_october_def noon_clock_def num0_def
      convert_to_unpaid_def convert_result_def converted_month_def convert_status_def
      isReversed_def truthy_date_def deduct_income_def or_text_def delete_user_def
      incomeDeductions_def deduct_month_def add_deduction_def apply_deduction_def
      matches_name_def trim_def is_space_def toLowerCase_def lower_char_def
      stays_nonnegative_def Let_def)

text \<open>
  C8 as stated fails for the transfer: Ali's income record stands at 0 while the vouchers
  show 1500 received by Ali, so the transfer of 1000 to Admin passes the sufficiency check
  and leaves Ali's cash income at -1000.
\<close>

theorem transfer_negative_counterexample:
  "fst (post_transfer transfer_ali (db_ali 0)) = Ok200
   \<and> incomes (db_ali 0) = [ali_income 0 0]
   \<and> incomes (snd (post_transfer transfer_ali (db_ali 0)))
      = [ali_income (- 1000) 0, \<lparr>i_name = ''Admin'', i_cashIncome = 1000, i_bankIncome = 0\<rparr>]"
  by (simp add: transfer_ali_def db_ali_def ali_income_def db_months_def user_u1_def voucher_u1_def
      oct_paid_def nov_unpaid_def empty_month_def post_transfer_def collected_from_vouchers_def
      collected_in_month_def months_of_def num0_def matches_name_def trim_def is_space_def
      toLowerCase_def lower_char_def Let_def)

subsection \<open>Reversal and re-payment\<close>

lemma findIndex_update:
  "findIndex P xs = Some i \<Longrightarrow> P y \<Longrightarrow> findIndex P (xs[i := y]) = Some i"
  by (induction xs arbitrary: i) (auto split: if_splits nat.splits)

lemma credit_cash_found:
  assumes "find (\<lambda>x. i_name x = r) inc = Some rec"
  shows "find (\<lambda>x. i_name x = r) (credit_cash r a inc) = Some (rec\<lparr>i_cashIncome := i_cashIncome rec + a\<rparr>)"
proof -
  from assms have "list_ex (\<lambda>x. i_name x = r) inc"
    by (auto simp: list_ex_iff find_Some_iff)
  then show ?thesis using assms by (simp add: credit_cash_def find_update_first_same)
qed

lemma credit_month_single:
  assumes "m_status inc = ''paid''" and "m_receivedBy inc = r" and "r \<noteq> []"
    and "m_paidAmount inc = Some p" and "0 < p"
    and "m_paymentHistory inc = None
         \<or> (\<exists>pay. m_paymentHistory inc = Some [pay] \<and> p_amount pay = p \<and> p_receivedBy pay = r)"
  shows "credit_months incs [inc] = credit_cash r p incs"
  using assms
  by (auto simp: credit_months_def credit_month_def credit_payment_def num0_def or_text_def Let_def)

text \<open>
  C7 (amended). Let a month be fully paid (paid amount p > 0 equal to fee less discount,
  remaining amount 0) with receiver r, let r have an income record whose debited total (the
  bank income when the payment method names a bank, the cash income otherwise) is at least
  p, and let no month of the voucher have status superbalance. Converting the month to unpaid
  and then recording, through POST /api/vouchers, a payment of p for the same month received
  by r succeeds twice; the stored months are the original ones with that month replaced by a
  paid entry of the same label, paid amount and remaining amount; the conversion lowers the
  sum of r's cash and bank income by p and the re-payment, credited to the cash income,
  restores the sum.
\<close>

theorem reverse_repay_round_trip:
  assumes ids: "uid \<noteq> []" "label \<noteq> []"
    and v: "find (\<lambda>v. v_userId v = uid) (vouchers s) = Some voucher" "v_months voucher = Some months"
    and i: "findIndex (\<lambda>m. m_month m = label) months = Some i"
    and paid: "m_paidAmount (months ! i) = Some p" "0 < p"
      "m_packageFee (months ! i) - m_discount (months ! i) = p"
      "m_remainingAmount (months ! i) = Some 0"
    and r: "m_receivedBy (months ! i) = r" "r \<noteq> []"
    and rec: "find (\<lambda>x. i_name x = r) (incomes s) = Some rec"
      "p \<le> (if includes_text (toLowerCase (or_text (m_paymentMethod (months ! i)) ''Cash'')) ''bank''
             then i_bankIncome rec else i_cashIncome rec)"
    and nosb: "\<forall>m \<in> set months. m_status m \<noteq> ''superbalance''"
    and rq: "vr_userId rq = uid" "vr_months rq = [inc]" "m_month inc = label"
      "m_paidAmount inc = Some p" "m_status inc = ''paid''" "m_receivedBy inc = r"
      "m_paymentHistory inc = None
         \<or> (\<exists>pay. m_paymentHistory inc = Some [pay] \<and> p_amount pay = p \<and> p_receivedBy pay = r)"
  shows "let reversed = convert_to_unpaid clk (convert_request_for uid label) s;
             repaid = post_vouchers clk' pd n rq (snd reversed)
         in fst reversed = Ok200 \<and> fst repaid = Ok200
            \<and> (\<exists>e stored. months_of voucher ! i = e
                  \<and> map_option v_months (find (\<lambda>v. v_userId v = uid) (vouchers (snd repaid)))
                      = Some (Some stored)
                  \<and> (\<exists>e'. mset stored = mset (months[i := e']) \<and> m_month e' = label
                        \<and> m_status e' = ''paid'' \<and> m_paidAmount e' = m_paidAmount e
                        \<and> m_remainingAmount e' = m_remainingAmount e))
            \<and> (\<exists>rec1 rec2. find (\<lambda>x. i_name x = r) (incomes (snd reversed)) = Some rec1
                  \<and> find (\<lambda>x. i_name x = r) (incomes (snd repaid)) = Some rec2
                  \<and> i_cashIncome rec1 + i_bankIncome rec1 = i_cashIncome rec + i_bankIncome rec - p
                  \<and> i_cashIncome rec2 + i_bankIncome rec2 = i_cashIncome rec + i_bankIncome rec)"
proof -
  let ?cr = "convert_request_for uid label"
  let ?e = "months ! i"
  let ?ms1 = "convert_result clk ?cr months i"
  let ?pm = "or_text (m_paymentMethod ?e) ''Cash''"
  let ?inc1 = "deduct_income r ?pm p (incomes s)"
  have c: "cr_userId ?cr \<noteq> []" "cr_month ?cr \<noteq> []"
      "find (\<lambda>v. v_userId v = cr_userId ?cr) (vouchers s) = Some voucher"
      "v_months voucher = Some months"
      "findIndex (\<lambda>m. m_month m = cr_month ?cr) months = Some i"
    using ids v i by (simp_all add: convert_request_for_def)
  note res1 = convert_to_unpaid_result [OF c, of clk]
  let ?s1 = "snd (convert_to_unpaid clk ?cr s)"
  have ilen: "i < length months" and lab: "m_month ?e = label"
    using findIndex_Some [OF i] by simp_all
  have cu: "cr_userId ?cr = uid" by (simp add: convert_request_for_def)
  have v1: "find (\<lambda>v. v_userId v = uid) (vouchers ?s1) = Some (voucher\<lparr>v_months := Some ?ms1\<rparr>)"
    using v by (simp add: res1 cu find_update_first_same)
  have inc1: "incomes ?s1 = ?inc1"
    using paid r by (simp add: res1 num0_def)
  have ms1: "?ms1 = months[i := converted_month clk ?e (m_packageFee ?e) (m_discount ?e)]"
    by (simp add: convert_result_def convert_request_for_def)
  let ?c = "converted_month clk ?e (m_packageFee ?e) (m_discount ?e)"
  have clab: "m_month ?c = label" using lab by (simp add: converted_month_def)
  have i1: "findIndex (\<lambda>m. m_month m = m_month inc) ?ms1 = Some i"
    unfolding ms1 using findIndex_update [OF i, of ?c] clab rq by simp
  let ?e' = "update_existing clk' ?c inc"
  have merged: "smart_merge clk' ?ms1 [inc] = months[i := ?e']"
    using i1 ilen by (simp add: smart_merge_def merge_step_def ms1)
  have e'st: "m_status ?e' = ''paid''"
    using rq by (simp add: update_existing_def Let_def or_text_def)
  have nosb': "\<not> list_ex (\<lambda>m. m_status m = ''superbalance'') (months[i := ?e'])"
    using nosb e'st by (auto simp: list_ex_iff dest!: set_update_subset_insert [THEN subsetD])
  then have conv: "map convert_superbalance (months[i := ?e']) = months[i := ?e']"
    by (auto simp: list_ex_iff convert_superbalance_def intro!: map_idI)
  have sorted1: "sortMonths pd [inc] = [inc]" by (simp add: sortMonths_def)
  let ?s2 = "snd (post_vouchers clk' pd n rq ?s1)"
  have post: "post_vouchers clk' pd n rq ?s1 =
      (Ok200, ?s1\<lparr>vouchers := update_first (\<lambda>v. v_userId v = uid)
           (\<lambda>v. v\<lparr>v_months := Some (sortMonths pd (months[i := ?e'])),
                  v_rechargeDate := or_text (vr_rechargeDate rq) (v_rechargeDate (voucher\<lparr>v_months := Some ?ms1\<rparr>)),
                  v_expiryDate := or_expiry (vr_expiryDate rq) (v_expiryDate (voucher\<lparr>v_months := Some ?ms1\<rparr>))\<rparr>)
           (vouchers ?s1),
         incomes := credit_months ?inc1 [inc]\<rparr>)"
    using rq v1 nosb' conv
    by (simp add: post_vouchers_def Let_def sorted1 months_of_def merged hasSuperBalanceConverted_def inc1)
  have credit: "credit_months ?inc1 [inc] = credit_cash r p ?inc1"
    using credit_month_single [of inc r p ?inc1] rq r paid by simp
  have f1: "find (\<lambda>x. i_name x = r) ?inc1
      = Some (if includes_text (toLowerCase ?pm) ''bank''
              then rec\<lparr>i_bankIncome := max 0 (i_bankIncome rec - p)\<rparr>
              else rec\<lparr>i_cashIncome := max 0 (i_cashIncome rec - p)\<rparr>)"
    using deduct_income_clamps [OF rec(1) paid(2) r(2)] .
  let ?rec1 = "if includes_text (toLowerCase ?pm) ''bank''
              then rec\<lparr>i_bankIncome := max 0 (i_bankIncome rec - p)\<rparr>
              else rec\<lparr>i_cashIncome := max 0 (i_cashIncome rec - p)\<rparr>"
  have f2: "find (\<lambda>x. i_name x = r) (incomes ?s2) = Some (?rec1\<lparr>i_cashIncome := i_cashIncome ?rec1 + p\<rparr>)"
    using credit_cash_found [OF f1, of p] by (simp add: post credit)
  have t1: "i_cashIncome ?rec1 + i_bankIncome ?rec1 = i_cashIncome rec + i_bankIncome rec - p"
    using rec(2) by (simp split: if_splits)
  have stored: "map_option v_months (find (\<lambda>v. v_userId v = uid) (vouchers ?s2))
      = Some (Some (sortMonths pd (months[i := ?e'])))"
    using v1 by (simp add: post find_update_first_same)
  have e'paid: "m_paidAmount ?e' = m_paidAmount ?e"
    using rq paid by (simp add: update_existing_def Let_def incoming_paid_def)
  have e'rem: "m_remainingAmount ?e' = m_remainingAmount ?e"
    using rq paid by (simp add: update_existing_def Let_def incoming_paid_def converted_month_def)
  have e'lab: "m_month ?e' = label"
    using clab by (simp add: update_existing_def Let_def)
  have A: "fst (convert_to_unpaid clk ?cr s) = Ok200" by (simp add: res1)
  have B: "fst (post_vouchers clk' pd n rq ?s1) = Ok200" by (simp add: post)
  have C: "\<exists>e stored. months_of voucher ! i = e
                  \<and> map_option v_months (find (\<lambda>v. v_userId v = uid) (vouchers ?s2))
                      = Some (Some stored)
                  \<and> (\<exists>e'. mset stored = mset (months[i := e']) \<and> m_month e' = label
                        \<and> m_status e' = ''paid'' \<and> m_paidAmount e' = m_paidAmount e
                        \<and> m_remainingAmount e' = m_remainingAmount e)"
    using stored e'paid e'rem e'lab e'st v(2)
    by (intro exI [of _ ?e] exI [of _ "sortMonths pd (months[i := ?e'])"] conjI exI [of _ ?e'])
       (simp_all add: months_of_def sortMonths_def)
  have D: "\<exists>rec1 rec2. find (\<lambda>x. i_name x = r) (incomes ?s1) = Some rec1
                  \<and> find (\<lambda>x. i_name x = r) (incomes ?s2) = Some rec2
                  \<and> i_cashIncome rec1 + i_bankIncome rec1 = i_cashIncome rec + i_bankIncome rec - p
                  \<and> i_cashIncome rec2 + i_bankIncome rec2 = i_cashIncome rec + i_bankIncome rec"
    using f1 f2 t1 unfolding inc1
    by (intro exI [of _ ?rec1] exI [of _ "?rec1\<lparr>i_cashIncome := i_cashIncome ?rec1 + p\<rparr>"]) simp
  show ?thesis
    unfolding Let_def using A B C D by blast
qed

text \<open>
  The theorem at the store of u1 with Ali's cash income at 1500: October is converted and
  paid again, and Ali's income is 1500 again.
\<close>

theorem reverse_repay_round_trip_witness:
  "find (\<lambda>v. v_userId v = ''u1'') (vouchers (db_ali 1500))
     = Some (voucher_u1\<lparr>v_months := Some [oct_paid, nov_unpaid]\<rparr>)
   \<and> findIndex (\<lambda>m. m_month m = ''October 2025'') [oct_paid, nov_unpaid] = Some 0
   \<and> m_paidAmount oct_paid = Some 1500 \<and> m_packageFee oct_paid - m_discount oct_paid = 1500
   \<and> m_remainingAmount oct_paid = Some 0 \<and> m_receivedBy oct_paid = ''Ali''
   \<and> find (\<lambda>x. i_name x = ''Ali'') (incomes (db_ali 1500)) = Some (ali_income 1500 0)
   \<and> incomes (snd (convert_to_unpaid noon_clock (convert_request_for ''u1'' ''October 2025'') (db_ali 1500)))
      = [ali_income 0 0]
   \<and> incomes (snd (post_vouchers noon_clock no_text ''v2'' (request_u1 [oct_repay])
        (snd (convert_to_unpaid noon_clock (convert_request_for ''u1'' ''October 2025'') (db_ali 1500)))))
      = [ali_income 1500 0]
   \<and> map (\<lambda>v. map (\<lambda>m. (m_month m, m_status m, m_paidAmount m, m_remainingAmount m)) (months_of v))
        (vouchers (snd (post_vouchers noon_clock no_text ''v2'' (request_u1 [oct_repay])
          (snd (convert_to_unpaid noon_clock (convert_request_for ''u1'' ''October 2025'') (db_ali 1500))))))
      = [[(''October 2025'', ''paid'', Some 1500, Some 0),
          (''November 2025'', ''unpaid'', Some 0, Some 1500)]]"
  using reverse_repay_round_trip [where uid = "''u1''" and label = "''October 2025''"
      and s = "db_ali 1500" and voucher = "voucher_u1\<lparr>v_months := Some [oct_paid, nov_unpaid]\<rparr>"
      and months = "[oct_paid, nov_unpaid]" and i = 0 and p = 1500 and r = "''Ali''"
      and rec = "ali_income 1500 0" and rq = "request_u1 [oct_repay]" and inc = oct_repay
      and clk = noon_clock and clk' = noon_clock and pd = no_text and n = "''v2''"]
  by (simp add: db_ali_def ali_income_def db_months_def user_u1_def voucher_u1_def oct_paid_def
      oct_repay_def nov_unpaid_def empty_month_def convert_request_for_def request_u1_def
      noon_clock_def num0_def convert_to_unpaid_def convert_result_def converted_month_def
      convert_status_def isReversed_def truthy_date_def deduct_income_def or_text_def or_date_def
      or_history_def or_expiry_def post_vouchers_def sortMonths_def smart_merge_def
      merge_step_def update_existing_def incoming_paid_def convert_superbalance_def
      hasSuperBalanceConverted_def credit_months_def credit_month_def credit_cash_def
      chargeTime_def months_of_def toLowerCase_def lower_char_def Let_def)

text \<open>
  C7 as stated fails: Ali's cash income stands at 0 when October, paid 1500 to Ali, is
  converted, so the conversion deducts nothing; the re-payment then credits 1500.
\<close>

theorem reverse_repay_counterexample:
  "incomes (db_ali 0) = [ali_income 0 0]
   \<and> incomes (snd (convert_to_unpaid noon_clock (convert_request_for ''u1'' ''October 2025'') (db_ali 0)))
      = [ali_income 0 0]
   \<and> incomes (snd (post_vouchers noon_clock no_text ''v2'' (request_u1 [oct_repay])
        (snd (convert_to_unpaid noon_clock (convert_request_for ''u1'' ''October 2025'') (db_ali 0)))))
      = [ali_income 1500 0]"
  by (simp add: db_ali_def ali_income_def db_months_def user_u1_def voucher_u1_def oct_paid_def
      oct_repay_def nov_unpaid_def empty_month_def convert_request_for_def request_u1_def
      noon_clock_def num0_def convert_to_unpaid_def convert_result_def converted_month_def
      convert_status_def isReversed_def truthy_date_def deduct_income_def or_text_def or_date_def
      or_history_def or_expiry_def post_vouchers_def sortMonths_def smart_merge_def
      merge_step_def update_existing_def incoming_paid_def convert_superbalance_def
      hasSuperBalanceConverted_def credit_months_def credit_month_def credit_cash_def
      chargeTime_def months_of_def toLowerCase_def lower_char_def Let_def)

subsection \<open>The rollover job\<close>

lemma find_snoc:
  "find P (xs @ [y]) = (case find P xs of Some a \<Rightarrow> Some a | None \<Rightarrow> if P y then Some y else None)"
  by (induction xs) auto

lemma map_update_first: "(\<And>x. g (f x) = g x) \<Longrightarrow> map g (update_first P f xs) = map g xs"
  by (induction xs) auto

lemma find_distinct:
  "distinct (map f xs) \<Longrightarrow> x \<in> set xs \<Longrightarrow> find (\<lambda>y. f y = f x) xs = Some x"
  by (induction xs) (auto simp: image_iff)

lemma process_users_append:
  "process_users clk ids toISO s (xs @ ys) =
     (case process_users clk ids toISO s xs of
        (Some e, s') \<Rightarrow> (Some e, s')
      | (None, s') \<Rightarrow> process_users clk ids toISO s' ys)"
  by (induction xs arbitrary: s) (auto split: sum.splits)

lemma users_frame:
  "j \<noteq> i \<Longrightarrow>
   find (\<lambda>u. u_id u = i)
     (update_first (\<lambda>u. u_id u = j)
        (\<lambda>u. u\<lparr>u_status := a, u_expiryDate := b, u_showInExpiringSoon := c, u_unpaidSince := d\<rparr>) xs)
   = find (\<lambda>u. u_id u = i) xs"
  by (rule find_update_first_other) auto

lemma vouchers_frame:
  "j \<noteq> i \<Longrightarrow>
   find (\<lambda>v. v_userId v = i)
     (update_first (\<lambda>v. v_userId v = j) (\<lambda>v. v\<lparr>v_months := F v, v_expiryDate := G v\<rparr>) xs)
   = find (\<lambda>v. v_userId v = i) xs"
  by (rule find_update_first_other) auto

lemma process_user_frame:
  assumes "process_user clk ids toISO s x = Inr s'" and "u_id x \<noteq> i"
  shows "find (\<lambda>u. u_id u = i) (users s') = find (\<lambda>u. u_id u = i) (users s)
       \<and> find (\<lambda>v. v_userId v = i) (vouchers s') = find (\<lambda>v. v_userId v = i) (vouchers s)"
  using assms
  by (auto simp: process_user_def Let_def users_frame vouchers_frame find_snoc
      split: expiry.splits option.splits if_splits)

lemma process_users_frame:
  assumes "\<forall>x \<in> set xs. u_id x \<noteq> i"
  shows "find (\<lambda>u. u_id u = i) (users (snd (process_users clk ids toISO s xs))) = find (\<lambda>u. u_id u = i) (users s)
       \<and> find (\<lambda>v. v_userId v = i) (vouchers (snd (process_users clk ids toISO s xs)))
           = find (\<lambda>v. v_userId v = i) (vouchers s)"
  using assms
proof (induction xs arbitrary: s)
  case Nil
  show ?case by simp
next
  case (Cons x xs)
  show ?case
  proof (cases "process_user clk ids toISO s x")
    case (Inl e)
    then show ?thesis by simp
  next
    case (Inr s')
    from Cons.prems have "u_id x \<noteq> i" and rest: "\<forall>y \<in> set xs. u_id y \<noteq> i" by simp_all
    from process_user_frame [OF Inr this(1)] Cons.IH [OF rest, of s'] Inr
    show ?thesis by simp
  qed
qed

lemma process_user_ids:
  "process_user clk ids toISO s x = Inr s' \<Longrightarrow> map u_id (users s') = map u_id (users s)"
  by (auto simp: process_user_def Let_def map_update_first split: expiry.splits option.splits if_splits)

lemma process_users_ids:
  "map u_id (users (snd (process_users clk ids toISO s xs))) = map u_id (users s)"
proof (induction xs arbitrary: s)
  case Nil
  show ?case by simp
next
  case (Cons x xs)
  show ?case
    using Cons.IH process_user_ids [of clk ids toISO s x]
    by (cases "process_user clk ids toISO s x") simp_all
qed

lemma process_users_no_error:
  "\<forall>x \<in> set xs. \<exists>c. u_expiryDate x = ExpiryText c \<Longrightarrow> fst (process_users clk ids toISO s xs) = None"
  by (induction xs arbitrary: s)
     (auto simp: process_user_def Let_def split: sum.splits expiry.splits option.splits if_splits)

lemma nextExpiryDate_valid: "valid_civil e \<Longrightarrow> valid_civil (nextExpiryDate e)"
  unfolding valid_civil_def nextExpiryDate_def days_in_month_def Let_def
  by (auto split: if_splits)

lemma newMonth_label: "m_month (newMonth clk toISO u e) = monthName e"
  by (simp add: newMonth_def Let_def)

lemma process_user_target:
  assumes "u_expiryDate u = ExpiryText e" and "find (\<lambda>x. u_id x = u_id u) (users s) = Some u0"
  shows "\<exists>s'. process_user clk ids toISO s u = Inr s'
     \<and> find (\<lambda>x. u_id x = u_id u) (users s') = Some (rolled clk e u0)
     \<and> (\<exists>v'. find (\<lambda>v. v_userId v = u_id u) (vouchers s') = Some v'
            \<and> rolled_voucher clk toISO u e (find (\<lambda>v. v_userId v = u_id u) (vouchers s)) v')"
  using assms
  by (auto simp: process_user_def Let_def rolled_def rolled_voucher_def newMonth_label
      find_update_first_same find_snoc split: option.splits)

lemma rollover_effect:
  assumes hour: "12 \<le> c_hour clk"
    and dist: "distinct (map u_id (users s))"
    and mem: "u \<in> set (users s)"
    and q: "in_rollover_query u"
    and ex: "u_expiryDate u = ExpiryText e"
    and lte: "isDateLTE e (c_today clk)"
    and ok: "\<forall>x \<in> set (expiredUsers clk s). \<exists>c. u_expiryDate x = ExpiryText c"
  shows "fst (moveTodayExpiredToUnpaid clk ids toISO s) = None
     \<and> find (\<lambda>x. u_id x = u_id u) (users (snd (moveTodayExpiredToUnpaid clk ids toISO s)))
         = Some (rolled clk e u)
     \<and> (\<exists>v'. find (\<lambda>v. v_userId v = u_id u) (vouchers (snd (moveTodayExpiredToUnpaid clk ids toISO s))) = Some v'
            \<and> rolled_voucher clk toISO u e (find (\<lambda>v. v_userId v = u_id u) (vouchers s)) v')"
proof -
  let ?batch = "expiredUsers clk s"
  let ?run = "process_users clk ids toISO"
  have inb: "u \<in> set ?batch"
    using mem q ex lte by (simp add: expiredUsers_def)
  have db: "distinct (map u_id ?batch)"
    using dist by (simp add: expiredUsers_def distinct_map_filter)
  from inb obtain pre post where split: "?batch = pre @ u # post"
    by (auto dest: split_list)
  from db split have npre: "\<forall>x \<in> set pre. u_id x \<noteq> u_id u" and npost: "\<forall>x \<in> set post. u_id x \<noteq> u_id u"
    by (auto simp: image_iff)
  from ok split have okpre: "\<forall>x \<in> set pre. \<exists>c. u_expiryDate x = ExpiryText c"
    and okpost: "\<forall>x \<in> set post. \<exists>c. u_expiryDate x = ExpiryText c" by auto
  obtain s1 where r1: "?run s pre = (None, s1)"
    using process_users_no_error [OF okpre, of clk ids toISO s] by (cases "?run s pre") auto
  have f1: "find (\<lambda>x. u_id x = u_id u) (users s1) = Some u"
    and g1: "find (\<lambda>v. v_userId v = u_id u) (vouchers s1) = find (\<lambda>v. v_userId v = u_id u) (vouchers s)"
    using process_users_frame [OF npre, of clk ids toISO s] r1 find_distinct [OF dist mem] by simp_all
  from process_user_target [OF ex f1, of clk ids toISO]
  obtain s2 v' where r2: "process_user clk ids toISO s1 u = Inr s2"
    and f2: "find (\<lambda>x. u_id x = u_id u) (users s2) = Some (rolled clk e u)"
    and g2: "find (\<lambda>v. v_userId v = u_id u) (vouchers s2) = Some v'"
    and h2: "rolled_voucher clk toISO u e (find (\<lambda>v. v_userId v = u_id u) (vouchers s)) v'"
    unfolding g1 by blast
  obtain s3 where r3: "?run s2 post = (None, s3)"
    using process_users_no_error [OF okpost, of clk ids toISO s2] by (cases "?run s2 post") auto
  have f3: "find (\<lambda>x. u_id x = u_id u) (users s3) = Some (rolled clk e u)"
    and g3: "find (\<lambda>v. v_userId v = u_id u) (vouchers s3) = Some v'"
    using process_users_frame [OF npost, of clk ids toISO s2] r3 f2 g2 by simp_all
  have run: "moveTodayExpiredToUnpaid clk ids toISO s = (None, s3)"
    using hour by (simp add: moveTodayExpiredToUnpaid_def split process_users_append r1 r2 r3)
  show ?thesis
    using f3 g3 h2 by (simp add: run)
qed

lemma run_frame:
  assumes "\<forall>x \<in> set (expiredUsers clk s). u_id x \<noteq> i"
  shows "find (\<lambda>u. u_id u = i) (users (snd (moveTodayExpiredToUnpaid clk ids toISO s)))
           = find (\<lambda>u. u_id u = i) (users s)
       \<and> find (\<lambda>v. v_userId v = i) (vouchers (snd (moveTodayExpiredToUnpaid clk ids toISO s)))
           = find (\<lambda>v. v_userId v = i) (vouchers s)"
  using process_users_frame [OF assms, of clk ids toISO s]
  by (simp add: moveTodayExpiredToUnpaid_def)

lemma run_ids:
  "map u_id (users (snd (moveTodayExpiredToUnpaid clk ids toISO s))) = map u_id (users s)"
  by (simp add: moveTodayExpiredToUnpaid_def process_users_ids)

text \<open>
  C4 (amended). Let the job run at or after noon over a store whose subscribers have distinct
  identifiers, and let no subscriber of the batch hold a \<^verbatim>\<open>Date\<close> object as expiry
  (the job would stop there). Every subscriber that the job's query selects (status paid,
  partial, unpaid, pending or superbalance, service status not inactive) and whose expiry, a
  valid date in DD-MM-YYYY text, is today or earlier, afterwards has status unpaid,
  showInExpiringSoon false, unpaidSince now and the expiry that \<^verbatim>\<open>setMonth(+1)\<close> gives,
  again a valid date: the same day of the following month whenever that month has such a
  day. Its voucher is unchanged when it already has a month labelled with the month of the
  old expiry;
  otherwise exactly one month is appended (or, without a voucher, a voucher with that one
  month is inserted), labelled with that month, with packageFee = amount,
  discount = discount, paidAmount 0, remainingAmount max(0, amount - discount) and status
  unpaid.
\<close>

theorem rollover_phase_b:
  assumes "12 \<le> c_hour clk"
    and "distinct (map u_id (users s))"
    and "u \<in> set (users s)"
    and "in_rollover_query u"
    and "u_expiryDate u = ExpiryText e"
    and "valid_civil e"
    and "isDateLTE e (c_today clk)"
    and "\<forall>x \<in> set (expiredUsers clk s). \<exists>c. u_expiryDate x = ExpiryText c"
  shows "fst (moveTodayExpiredToUnpaid clk ids toISO s) = None
     \<and> (\<exists>u'. find (\<lambda>x. u_id x = u_id u) (users (snd (moveTodayExpiredToUnpaid clk ids toISO s))) = Some u'
           \<and> u_status u' = ''unpaid'' \<and> \<not> u_showInExpiringSoon u'
           \<and> u_unpaidSince u' = Some (c_now clk)
           \<and> u_expiryDate u' = ExpiryText (nextExpiryDate e)
           \<and> u_amount u' = u_amount u \<and> u_discount u' = u_discount u
           \<and> u_serviceStatus u' = u_serviceStatus u)
     \<and> valid_civil (nextExpiryDate e)
     \<and> (cd e \<le> days_in_month (if cm e = 12 then cy e + 1 else cy e) (if cm e = 12 then 1 else cm e + 1)
          \<longrightarrow> nextExpiryDate e
              = \<lparr>cy = (if cm e = 12 then cy e + 1 else cy e), cm = (if cm e = 12 then 1 else cm e + 1),
                 cd = cd e\<rparr>)
     \<and> (\<exists>v'. find (\<lambda>v. v_userId v = u_id u) (vouchers (snd (moveTodayExpiredToUnpaid clk ids toISO s))) = Some v'
           \<and> (case find (\<lambda>v. v_userId v = u_id u) (vouchers s) of
                 None \<Rightarrow> v_months v' = Some [newMonth clk toISO u e]
               | Some v \<Rightarrow>
                   if list_ex (\<lambda>m. m_month m = monthName e) (months_of v) then v' = v
                   else v_months v' = Some (months_of v @ [newMonth clk toISO u e])))
     \<and> m_month (newMonth clk toISO u e) = monthName e
     \<and> m_packageFee (newMonth clk toISO u e) = u_amount u
     \<and> m_discount (newMonth clk toISO u e) = u_discount u
     \<and> m_paidAmount (newMonth clk toISO u e) = Some 0
     \<and> m_remainingAmount (newMonth clk toISO u e) = Some (max 0 (u_amount u - u_discount u))
     \<and> m_status (newMonth clk toISO u e) = ''unpaid''"
proof -
  note eff = rollover_effect [OF assms(1-5) assms(7-8), of ids toISO]
  from eff obtain v' where
      v': "find (\<lambda>v. v_userId v = u_id u) (vouchers (snd (moveTodayExpiredToUnpaid clk ids toISO s))) = Some v'"
      and rv: "rolled_voucher clk toISO u e (find (\<lambda>v. v_userId v = u_id u) (vouchers s)) v'"
    by blast
  have vouch: "case find (\<lambda>v. v_userId v = u_id u) (vouchers s) of
                 None \<Rightarrow> v_months v' = Some [newMonth clk toISO u e]
               | Some v \<Rightarrow>
                   if list_ex (\<lambda>m. m_month m = monthName e) (months_of v) then v' = v
                   else v_months v' = Some (months_of v @ [newMonth clk toISO u e])"
    using rv by (auto simp: rolled_voucher_def split: option.splits)
  have user: "\<exists>u'. find (\<lambda>x. u_id x = u_id u) (users (snd (moveTodayExpiredToUnpaid clk ids toISO s))) = Some u'
           \<and> u_status u' = ''unpaid'' \<and> \<not> u_showInExpiringSoon u'
           \<and> u_unpaidSince u' = Some (c_now clk)
           \<and> u_expiryDate u' = ExpiryText (nextExpiryDate e)
           \<and> u_amount u' = u_amount u \<and> u_discount u' = u_discount u
           \<and> u_serviceStatus u' = u_serviceStatus u"
    using eff by (simp add: rolled_def)
  have nxt: "cd e \<le> days_in_month (if cm e = 12 then cy e + 1 else cy e) (if cm e = 12 then 1 else cm e + 1)
          \<longrightarrow> nextExpiryDate e
              = \<lparr>cy = (if cm e = 12 then cy e + 1 else cy e), cm = (if cm e = 12 then 1 else cm e + 1),
                 cd = cd e\<rparr>"
    by (simp add: nextExpiryDate_def Let_def)
  have fields: "m_month (newMonth clk toISO u e) = monthName e
     \<and> m_packageFee (newMonth clk toISO u e) = u_amount u
     \<and> m_discount (newMonth clk toISO u e) = u_discount u
     \<and> m_paidAmount (newMonth clk toISO u e) = Some 0
     \<and> m_remainingAmount (newMonth clk toISO u e) = Some (max 0 (u_amount u - u_discount u))
     \<and> m_status (newMonth clk toISO u e) = ''unpaid''"
    by (simp add: newMonth_def Let_def)
  have vn: "valid_civil (nextExpiryDate e)"
    using assms(6) by (rule nextExpiryDate_valid)
  from eff have "fst (moveTodayExpiredToUnpaid clk ids toISO s) = None" by simp
  with user vn nxt v' vouch fields show ?thesis by blast
qed

text \<open>
  The theorem at subscriber u1, paid, expiring on 28 November 2025, at noon of that day.
\<close>

theorem rollover_phase_b_witness:
  "12 \<le> c_hour (rollover_clock nov28)
   \<and> distinct (map u_id (users (db_rollover [user_expiring ''u1'' ''paid'' (ExpiryText nov28)])))
   \<and> in_rollover_query (user_expiring ''u1'' ''paid'' (ExpiryText nov28))
   \<and> valid_civil nov28 \<and> isDateLTE nov28 (c_today (rollover_clock nov28))
   \<and> expiredUsers (rollover_clock nov28) (db_rollover [user_expiring ''u1'' ''paid'' (ExpiryText nov28)])
      = [user_expiring ''u1'' ''paid'' (ExpiryText nov28)]
   \<and> map (\<lambda>u. (u_id u, u_status u, u_expiryDate u, u_showInExpiringSoon u, u_unpaidSince u))
        (users (snd (moveTodayExpiredToUnpaid (rollover_clock nov28) new_ids iso_sample
           (db_rollover [user_expiring ''u1'' ''paid'' (ExpiryText nov28)]))))
      = [(''u1'', ''unpaid'', ExpiryText \<lparr>cy = 2025, cm = 12, cd = 28\<rparr>, False, Some 1764313200000)]
   \<and> map (\<lambda>v. map (\<lambda>m. (m_month m, m_status m, m_packageFee m, m_paidAmount m, m_remainingAmount m))
             (months_of v))
        (vouchers (snd (moveTodayExpiredToUnpaid (rollover_clock nov28) new_ids iso_sample
           (db_rollover [user_expiring ''u1'' ''paid'' (ExpiryText nov28)]))))
      = [[(''October 2025'', ''paid'', 1500, Some 1500, Some 0),
          (''November 2025'', ''unpaid'', 1500, Some 0, Some 1500)]]"
  using rollover_phase_b [where clk = "rollover_clock nov28"
      and s = "db_rollover [user_expiring ''u1'' ''paid'' (ExpiryText nov28)]"
      and u = "user_expiring ''u1'' ''paid'' (ExpiryText nov28)" and e = nov28
      and ids = new_ids and toISO = iso_sample]
  by (simp add: rollover_clock_def new_ids_def iso_sample_def user_expiring_def user_u1_def
      db_rollover_def voucher_u1_def oct_paid_def nov_unpaid_def empty_month_def nov28_def jan31_def jan15_def
      mar20_def moveTodayExpiredToUnpaid_def expiredUsers_def in_rollover_query_def isDateLTE_def
      process_user_def newMonth_def monthName_def decimal.simps nextExpiryDate_def
      days_in_month_def leap_year_def valid_civil_def months_of_def Let_def)

text \<open>
  C4 as stated fails twice. An active subscriber of status reversed whose expiry is today
  is not selected: the run leaves the store as it is. And a subscriber expiring on
  31 January 2025 is given the expiry 3 March 2025.
\<close>

theorem rollover_phase_b_counterexample:
  "u_serviceStatus (user_expiring ''u1'' ''reversed'' (ExpiryText nov28)) = ''active''
   \<and> isDateLTE nov28 (c_today (rollover_clock nov28))
   \<and> moveTodayExpiredToUnpaid (rollover_clock nov28) new_ids iso_sample
        (db_rollover [user_expiring ''u1'' ''reversed'' (ExpiryText nov28)])
      = (None, db_rollover [user_expiring ''u1'' ''reversed'' (ExpiryText nov28)])
   \<and> map (\<lambda>u. (u_status u, u_expiryDate u))
        (users (snd (moveTodayExpiredToUnpaid (rollover_clock jan31) new_ids iso_sample
           (db_rollover [user_expiring ''u1'' ''paid'' (ExpiryText jan31)]))))
      = [(''unpaid'', ExpiryText \<lparr>cy = 2025, cm = 3, cd = 3\<rparr>)]"
  by (simp add: rollover_clock_def new_ids_def iso_sample_def user_expiring_def user_u1_def
      db_rollover_def voucher_u1_def oct_paid_def nov_unpaid_def empty_month_def nov28_def jan31_def jan15_def
      mar20_def moveTodayExpiredToUnpaid_def expiredUsers_def in_rollover_query_def isDateLTE_def
      process_user_def newMonth_def monthName_def decimal.simps nextExpiryDate_def
      days_in_month_def leap_year_def valid_civil_def months_of_def Let_def)

text \<open>
  C5 (amended). Under the conditions of C4, when the advanced expiry is after today, a
  second run on the same civil day (at any hour, whatever else it processes) leaves the
  subscriber's document and voucher as the first run left them: over both runs the voucher
  has gained exactly the one month of the cycle, or nothing when it already had a month of
  that label.
\<close>

theorem rollover_twice:
  assumes "12 \<le> c_hour clk"
    and "distinct (map u_id (users s))"
    and "u \<in> set (users s)"
    and "in_rollover_query u"
    and "u_expiryDate u = ExpiryText e"
    and "valid_civil e"
    and "isDateLTE e (c_today clk)"
    and "\<forall>x \<in> set (expiredUsers clk s). \<exists>c. u_expiryDate x = ExpiryText c"
    and "c_today later = c_today clk"
    and "\<not> isDateLTE (nextExpiryDate e) (c_today clk)"
  shows "let s1 = snd (moveTodayExpiredToUnpaid clk ids toISO s);
             s2 = snd (moveTodayExpiredToUnpaid later ids toISO s1)
         in find (\<lambda>x. u_id x = u_id u) (users s2) = find (\<lambda>x. u_id x = u_id u) (users s1)
            \<and> find (\<lambda>v. v_userId v = u_id u) (vouchers s2) = find (\<lambda>v. v_userId v = u_id u) (vouchers s1)
            \<and> (\<exists>v'. find (\<lambda>v. v_userId v = u_id u) (vouchers s2) = Some v'
                  \<and> (case find (\<lambda>v. v_userId v = u_id u) (vouchers s) of
                        None \<Rightarrow> v_months v' = Some [newMonth clk toISO u e]
                      | Some v \<Rightarrow>
                          if list_ex (\<lambda>m. m_month m = monthName e) (months_of v) then v' = v
                          else v_months v' = Some (months_of v @ [newMonth clk toISO u e])))"
proof -
  let ?s1 = "snd (moveTodayExpiredToUnpaid clk ids toISO s)"
  note eff = rollover_effect [OF assms(1-5) assms(7-8), of ids toISO]
  from eff have u1: "find (\<lambda>x. u_id x = u_id u) (users ?s1) = Some (rolled clk e u)" by simp
  from eff obtain v' where
      v': "find (\<lambda>v. v_userId v = u_id u) (vouchers ?s1) = Some v'"
      and rv: "rolled_voucher clk toISO u e (find (\<lambda>v. v_userId v = u_id u) (vouchers s)) v'"
    by blast
  have ids1: "map u_id (users ?s1) = map u_id (users s)"
    by (rule run_ids)
  then have d1: "distinct (map u_id (users ?s1))" using assms(2) by simp
  have other: "\<forall>x \<in> set (expiredUsers later ?s1). u_id x \<noteq> u_id u"
  proof
    fix x assume x: "x \<in> set (expiredUsers later ?s1)"
    show "u_id x \<noteq> u_id u"
    proof
      assume same: "u_id x = u_id u"
      from x have xm: "x \<in> set (users ?s1)" by (simp add: expiredUsers_def)
      from find_distinct [OF d1 xm] same u1 have "x = rolled clk e u" by simp
      with x assms(9,10) show False by (simp add: expiredUsers_def rolled_def)
    qed
  qed
  have fr: "find (\<lambda>x. u_id x = u_id u) (users (snd (moveTodayExpiredToUnpaid later ids toISO ?s1)))
              = find (\<lambda>x. u_id x = u_id u) (users ?s1)
          \<and> find (\<lambda>v. v_userId v = u_id u) (vouchers (snd (moveTodayExpiredToUnpaid later ids toISO ?s1)))
              = find (\<lambda>v. v_userId v = u_id u) (vouchers ?s1)"
    by (rule run_frame [OF other])
  have vouch: "case find (\<lambda>v. v_userId v = u_id u) (vouchers s) of
                 None \<Rightarrow> v_months v' = Some [newMonth clk toISO u e]
               | Some v \<Rightarrow>
                   if list_ex (\<lambda>m. m_month m = monthName e) (months_of v) then v' = v
                   else v_months v' = Some (months_of v @ [newMonth clk toISO u e])"
    using rv by (auto simp: rolled_voucher_def split: option.splits)
  show ?thesis
    unfolding Let_def using fr v' vouch by simp
qed

text \<open>
  The theorem at subscriber u1 expiring on 28 November 2025, with runs at noon and later on
  that day.
\<close>

theorem rollover_twice_witness:
  "c_today ((rollover_clock nov28)\<lparr>c_hour := 13\<rparr>) = c_today (rollover_clock nov28)
   \<and> \<not> isDateLTE (nextExpiryDate nov28) (c_today (rollover_clock nov28))
   \<and> valid_civil nov28
   \<and> moveTodayExpiredToUnpaid ((rollover_clock nov28)\<lparr>c_hour := 13\<rparr>) new_ids iso_sample
        (snd (moveTodayExpiredToUnpaid (rollover_clock nov28) new_ids iso_sample
           (db_rollover [user_expiring ''u1'' ''paid'' (ExpiryText nov28)])))
      = (None, snd (moveTodayExpiredToUnpaid (rollover_clock nov28) new_ids iso_sample
           (db_rollover [user_expiring ''u1'' ''paid'' (ExpiryText nov28)])))
   \<and> map (\<lambda>v. map m_month (months_of v))
        (vouchers (snd (moveTodayExpiredToUnpaid ((rollover_clock nov28)\<lparr>c_hour := 13\<rparr>) new_ids iso_sample
          (snd (moveTodayExpiredToUnpaid (rollover_clock nov28) new_ids iso_sample
             (db_rollover [user_expiring ''u1'' ''paid'' (ExpiryText nov28)]))))))
      = [[''October 2025'', ''November 2025'']]"
  using rollover_twice [where clk = "rollover_clock nov28"
      and later = "(rollover_clock nov28)\<lparr>c_hour := 13\<rparr>"
      and s = "db_rollover [user_expiring ''u1'' ''paid'' (ExpiryText nov28)]"
      and u = "user_expiring ''u1'' ''paid'' (ExpiryText nov28)" and e = nov28
      and ids = new_ids and toISO = iso_sample]
  by (simp add: rollover_clock_def new_ids_def iso_sample_def user_expiring_def user_u1_def
      db_rollover_def voucher_u1_def oct_paid_def nov_unpaid_def empty_month_def nov28_def jan31_def jan15_def
      mar20_def moveTodayExpiredToUnpaid_def expiredUsers_def in_rollover_query_def isDateLTE_def
      process_user_def newMonth_def monthName_def decimal.simps nextExpiryDate_def
      days_in_month_def leap_year_def valid_civil_def months_of_def Let_def)

text \<open>
  C5 as stated fails: on 20 March 2025 a subscriber whose expiry is 15 January 2025 is
  advanced to 15 February by the first run, with a January month added, and to 15 March by
  the second run, which adds a February month.
\<close>

theorem rollover_twice_counterexample:
  "map (\<lambda>u. u_expiryDate u)
        (users (snd (moveTodayExpiredToUnpaid (rollover_clock mar20) new_ids iso_sample
           (db_rollover [user_expiring ''u1'' ''paid'' (ExpiryText jan15)]))))
      = [ExpiryText \<lparr>cy = 2025, cm = 2, cd = 15\<rparr>]
   \<and> map (\<lambda>v. map m_month (months_of v))
        (vouchers (snd (moveTodayExpiredToUnpaid (rollover_clock mar20) new_ids iso_sample
           (db_rollover [user_expiring ''u1'' ''paid'' (ExpiryText jan15)]))))
      = [[''October 2025'', ''January 2025'']]
   \<and> map (\<lambda>u. u_expiryDate u)
        (users (snd (moveTodayExpiredToUnpaid (rollover_clock mar20) new_ids iso_sample
          (snd (moveTodayExpiredToUnpaid (rollover_clock mar20) new_ids iso_sample
             (db_rollover [user_expiring ''u1'' ''paid'' (ExpiryText jan15)]))))))
      = [ExpiryText \<lparr>cy = 2025, cm = 3, cd = 15\<rparr>]
   \<and> map (\<lambda>v. map m_month (months_of v))
        (vouchers (snd (moveTodayExpiredToUnpaid (rollover_clock mar20) new_ids iso_sample
          (snd (moveTodayExpiredToUnpaid (rollover_clock mar20) new_ids iso_sample
             (db_rollover [user_expiring ''u1'' ''paid'' (ExpiryText jan15)]))))))
      = [[''October 2025'', ''January 2025'', ''February 2025'']]"
  by (simp add: rollover_clock_def new_ids_def iso_sample_def user_expiring_def user_u1_def
      db_rollover_def voucher_u1_def oct_paid_def nov_unpaid_def empty_month_def nov28_def jan31_def jan15_def
      mar20_def moveTodayExpiredToUnpaid_def expiredUsers_def in_rollover_query_def isDateLTE_def
      process_user_def newMonth_def monthName_def decimal.simps nextExpiryDate_def
      days_in_month_def leap_year_def valid_civil_def months_of_def Let_def)

lemma process_user_on_never:
  "process_user_on (\<lambda>i c. False) clk ids toISO s x
     = (case process_user clk ids toISO s x of
          Inl e \<Rightarrow> (Some (Raised e), s) | Inr s' \<Rightarrow> (None, s'))"
  by (simp add: process_user_on_def process_user_def Let_def split: expiry.splits option.splits)

lemma process_users_on_never:
  "process_users_on (\<lambda>i c. False) clk ids toISO s xs
     = (map_option Raised (fst (process_users clk ids toISO s xs)),
        snd (process_users clk ids toISO s xs))"
proof (induction xs arbitrary: s)
  case Nil
  show ?case by simp
next
  case (Cons x xs)
  show ?case
  proof (cases "process_user clk ids toISO s x")
    case (Inl e)
    then show ?thesis by (simp add: process_user_on_never)
  next
    case (Inr s')
    with Cons.IH [of s'] show ?thesis by (simp add: process_user_on_never)
  qed
qed

lemma process_users_on_append:
  "process_users_on fails clk ids toISO s (xs @ ys) =
     (case process_users_on fails clk ids toISO s xs of
        (Some e, s') \<Rightarrow> (Some e, s')
      | (None, s') \<Rightarrow> process_users_on fails clk ids toISO s' ys)"
  by (induction xs arbitrary: s) (auto split: prod.splits option.splits)

lemma process_user_on_frame:
  assumes "u_id x \<noteq> i"
  shows "find (\<lambda>u. u_id u = i) (users (snd (process_user_on fails clk ids toISO s x)))
           = find (\<lambda>u. u_id u = i) (users s)
       \<and> find (\<lambda>v. v_userId v = i) (vouchers (snd (process_user_on fails clk ids toISO s x)))
           = find (\<lambda>v. v_userId v = i) (vouchers s)"
  using assms
  by (auto simp: process_user_on_def Let_def users_frame vouchers_frame find_snoc
      split: expiry.splits option.splits if_splits)

lemma process_users_on_frame:
  assumes "\<forall>x \<in> set xs. u_id x \<noteq> i"
  shows "find (\<lambda>u. u_id u = i) (users (snd (process_users_on fails clk ids toISO s xs)))
           = find (\<lambda>u. u_id u = i) (users s)
       \<and> find (\<lambda>v. v_userId v = i) (vouchers (snd (process_users_on fails clk ids toISO s xs)))
           = find (\<lambda>v. v_userId v = i) (vouchers s)"
  using assms
proof (induction xs arbitrary: s)
  case Nil
  show ?case by simp
next
  case (Cons x xs)
  from Cons.prems have a: "u_id x \<noteq> i" and rest: "\<forall>y \<in> set xs. u_id y \<noteq> i" by simp_all
  obtain e s' where p: "process_user_on fails clk ids toISO s x = (e, s')"
    by (cases "process_user_on fails clk ids toISO s x")
  from process_user_on_frame [OF a, of fails clk ids toISO s] p
  have f: "find (\<lambda>u. u_id u = i) (users s') = find (\<lambda>u. u_id u = i) (users s)
       \<and> find (\<lambda>v. v_userId v = i) (vouchers s') = find (\<lambda>v. v_userId v = i) (vouchers s)" by simp
  show ?case
  proof (cases e)
    case None
    with p f Cons.IH [OF rest, of s'] show ?thesis by simp
  next
    case (Some err)
    with p f show ?thesis by simp
  qed
qed

lemma process_user_on_error:
  assumes "fst (process_user_on fails clk ids toISO s x) = Some e"
  shows "vouchers (snd (process_user_on fails clk ids toISO s x)) = vouchers s
     \<and> users (snd (process_user_on fails clk ids toISO s x))
         = (case u_expiryDate x of
              ExpiryText c \<Rightarrow>
                if fails (u_id x) UpdateUser then users s
                else update_first (\<lambda>u. u_id u = u_id x) (rolled clk c) (users s)
            | ExpiryDateObj d \<Rightarrow> users s
            | ExpiryAbsent \<Rightarrow> users s)"
proof -
  have r: "\<And>c. rolled clk c = (\<lambda>u. u\<lparr>u_status := ''unpaid'', u_expiryDate := ExpiryText (nextExpiryDate c),
                        u_showInExpiringSoon := False, u_unpaidSince := Some (c_now clk)\<rparr>)"
    by (rule ext) (simp add: rolled_def)
  show ?thesis
    using assms
    by (auto simp: process_user_on_def Let_def r split: expiry.splits option.splits if_splits)
qed

text \<open>
  C9 (amended). An error thrown while a subscriber of the batch is processed is caught by
  the one handler of the job, which is around the whole run, and ends the run: the
  subscribers after the failing one in the batch are not processed. What was written before
  the error stays: the updates of the subscribers processed before, and of the failing
  subscriber its own update (status unpaid, advanced expiry) when the error comes after it,
  with no month added to its voucher. The error is any that the loop body can throw: the
  \<^verbatim>\<open>TypeError\<close> of an expiry that is not a text, before any write, or a call that fails.
  Where no call fails the job is the one of the preceding theorems.
\<close>

theorem batch_stops_at_first_error:
  assumes "12 \<le> c_hour clk"
    and "expiredUsers clk s = pre @ bad # post"
    and "fst (process_users_on fails clk ids toISO s pre) = None"
    and "fst (process_user_on fails clk ids toISO
                (snd (process_users_on fails clk ids toISO s pre)) bad) = Some e"
  shows "(let before = snd (process_users_on fails clk ids toISO s pre);
              failed = snd (process_user_on fails clk ids toISO before bad);
              run = moveTodayExpiredToUnpaid_on fails clk ids toISO s
          in run = (Some e, failed)
             \<and> vouchers failed = vouchers before
             \<and> users failed
                 = (case u_expiryDate bad of
                      ExpiryText c \<Rightarrow>
                        if fails (u_id bad) UpdateUser then users before
                        else update_first (\<lambda>u. u_id u = u_id bad) (rolled clk c) (users before)
                    | ExpiryDateObj d \<Rightarrow> users before
                    | ExpiryAbsent \<Rightarrow> users before)
             \<and> (\<forall>x \<in> set post. (\<forall>y \<in> set (pre @ [bad]). u_id y \<noteq> u_id x) \<longrightarrow>
                   find (\<lambda>y. u_id y = u_id x) (users (snd run))
                     = find (\<lambda>y. u_id y = u_id x) (users s)
                   \<and> find (\<lambda>v. v_userId v = u_id x) (vouchers (snd run))
                       = find (\<lambda>v. v_userId v = u_id x) (vouchers s)))
     \<and> moveTodayExpiredToUnpaid_on (\<lambda>i c. False) clk ids toISO s
         = (map_option Raised (fst (moveTodayExpiredToUnpaid clk ids toISO s)),
            snd (moveTodayExpiredToUnpaid clk ids toISO s))"
proof -
  obtain s1 where p: "process_users_on fails clk ids toISO s pre = (None, s1)"
    using assms(3) by (cases "process_users_on fails clk ids toISO s pre") simp
  from p have before: "snd (process_users_on fails clk ids toISO s pre) = s1" by simp
  obtain s2 where b: "process_user_on fails clk ids toISO s1 bad = (Some e, s2)"
    using assms(4) before by (cases "process_user_on fails clk ids toISO s1 bad") simp
  from b have failed: "snd (process_user_on fails clk ids toISO s1 bad) = s2" by simp
  have "process_users_on fails clk ids toISO s (pre @ bad # post) = (Some e, s2)"
    by (simp add: process_users_on_append p b)
  then have run: "moveTodayExpiredToUnpaid_on fails clk ids toISO s = (Some e, s2)"
    using assms(1,2) by (simp add: moveTodayExpiredToUnpaid_on_def)
  from b have "fst (process_user_on fails clk ids toISO s1 bad) = Some e" by simp
  note err = process_user_on_error [OF this, unfolded failed]
  have fr: "\<forall>x \<in> set post. (\<forall>y \<in> set (pre @ [bad]). u_id y \<noteq> u_id x) \<longrightarrow>
                  find (\<lambda>y. u_id y = u_id x) (users s2) = find (\<lambda>y. u_id y = u_id x) (users s)
                  \<and> find (\<lambda>v. v_userId v = u_id x) (vouchers s2)
                      = find (\<lambda>v. v_userId v = u_id x) (vouchers s)"
  proof (intro ballI impI)
    fix x assume "x \<in> set post" and d: "\<forall>y \<in> set (pre @ [bad]). u_id y \<noteq> u_id x"
    from d have d1: "\<forall>y \<in> set pre. u_id y \<noteq> u_id x" and d2: "u_id bad \<noteq> u_id x" by simp_all
    from process_users_on_frame [OF d1, of fails clk ids toISO s]
      process_user_on_frame [OF d2, of fails clk ids toISO s1]
    show "find (\<lambda>y. u_id y = u_id x) (users s2) = find (\<lambda>y. u_id y = u_id x) (users s)
                  \<and> find (\<lambda>v. v_userId v = u_id x) (vouchers s2)
                      = find (\<lambda>v. v_userId v = u_id x) (vouchers s)"
      by (simp add: before failed)
  qed
  have never: "moveTodayExpiredToUnpaid_on (\<lambda>i c. False) clk ids toISO s
         = (map_option Raised (fst (moveTodayExpiredToUnpaid clk ids toISO s)),
            snd (moveTodayExpiredToUnpaid clk ids toISO s))"
    by (simp add: moveTodayExpiredToUnpaid_on_def moveTodayExpiredToUnpaid_def
        process_users_on_never)
  have main: "let before = snd (process_users_on fails clk ids toISO s pre);
              failed = snd (process_user_on fails clk ids toISO before bad);
              run = moveTodayExpiredToUnpaid_on fails clk ids toISO s
          in run = (Some e, failed)
             \<and> vouchers failed = vouchers before
             \<and> users failed
                 = (case u_expiryDate bad of
                      ExpiryText c \<Rightarrow>
                        if fails (u_id bad) UpdateUser then users before
                        else update_first (\<lambda>u. u_id u = u_id bad) (rolled clk c) (users before)
                    | ExpiryDateObj d \<Rightarrow> users before
                    | ExpiryAbsent \<Rightarrow> users before)
             \<and> (\<forall>x \<in> set post. (\<forall>y \<in> set (pre @ [bad]). u_id y \<noteq> u_id x) \<longrightarrow>
                   find (\<lambda>y. u_id y = u_id x) (users (snd run))
                     = find (\<lambda>y. u_id y = u_id x) (users s)
                   \<and> find (\<lambda>v. v_userId v = u_id x) (vouchers (snd run))
                       = find (\<lambda>v. v_userId v = u_id x) (vouchers s))"
    unfolding Let_def before failed run using err fr by simp
  from main never show ?thesis by (rule conjI)
qed

text \<open>
  The theorem at a batch of three paid subscribers expiring today, where the voucher lookup
  made for the second fails: the first becomes unpaid and a voucher with November is
  inserted for it; the second is left unpaid with the expiry advanced to 28 December and no
  November in its voucher; the third stays paid.
\<close>

theorem batch_stops_at_first_error_witness:
  "12 \<le> c_hour (rollover_clock nov28)
   \<and> expiredUsers (rollover_clock nov28)
        (db_rollover [user_expiring ''u0'' ''paid'' (ExpiryText nov28),
                      user_expiring ''u1'' ''paid'' (ExpiryText nov28),
                      user_expiring ''u2'' ''paid'' (ExpiryText nov28)])
      = [user_expiring ''u0'' ''paid'' (ExpiryText nov28)]
        @ user_expiring ''u1'' ''paid'' (ExpiryText nov28)
        # [user_expiring ''u2'' ''paid'' (ExpiryText nov28)]
   \<and> fst (process_users_on lookup_fails_u1 (rollover_clock nov28) new_ids iso_sample
        (db_rollover [user_expiring ''u0'' ''paid'' (ExpiryText nov28),
                      user_expiring ''u1'' ''paid'' (ExpiryText nov28),
                      user_expiring ''u2'' ''paid'' (ExpiryText nov28)])
        [user_expiring ''u0'' ''paid'' (ExpiryText nov28)]) = None
   \<and> fst (moveTodayExpiredToUnpaid_on lookup_fails_u1 (rollover_clock nov28) new_ids iso_sample
        (db_rollover [user_expiring ''u0'' ''paid'' (ExpiryText nov28),
                      user_expiring ''u1'' ''paid'' (ExpiryText nov28),
                      user_expiring ''u2'' ''paid'' (ExpiryText nov28)]))
      = Some (Failed FindVoucher)
   \<and> map (\<lambda>u. (u_id u, u_status u, u_expiryDate u))
        (users (snd (moveTodayExpiredToUnpaid_on lookup_fails_u1 (rollover_clock nov28) new_ids
          iso_sample
          (db_rollover [user_expiring ''u0'' ''paid'' (ExpiryText nov28),
                        user_expiring ''u1'' ''paid'' (ExpiryText nov28),
                        user_expiring ''u2'' ''paid'' (ExpiryText nov28)]))))
      = [(''u0'', ''unpaid'', ExpiryText \<lparr>cy = 2025, cm = 12, cd = 28\<rparr>),
         (''u1'', ''unpaid'', ExpiryText \<lparr>cy = 2025, cm = 12, cd = 28\<rparr>),
         (''u2'', ''paid'', ExpiryText \<lparr>cy = 2025, cm = 11, cd = 28\<rparr>)]
   \<and> map (\<lambda>v. (v_userId v, map m_month (months_of v)))
        (vouchers (snd (moveTodayExpiredToUnpaid_on lookup_fails_u1 (rollover_clock nov28) new_ids
          iso_sample
          (db_rollover [user_expiring ''u0'' ''paid'' (ExpiryText nov28),
                        user_expiring ''u1'' ''paid'' (ExpiryText nov28),
                        user_expiring ''u2'' ''paid'' (ExpiryText nov28)]))))
      = [(''u1'', [''October 2025'']), (''u0'', [''November 2025''])]"
  using batch_stops_at_first_error [where clk = "rollover_clock nov28"
      and s = "db_rollover [user_expiring ''u0'' ''paid'' (ExpiryText nov28),
                            user_expiring ''u1'' ''paid'' (ExpiryText nov28),
                            user_expiring ''u2'' ''paid'' (ExpiryText nov28)]"
      and pre = "[user_expiring ''u0'' ''paid'' (ExpiryText nov28)]"
      and bad = "user_expiring ''u1'' ''paid'' (ExpiryText nov28)"
      and post = "[user_expiring ''u2'' ''paid'' (ExpiryText nov28)]"
      and fails = lookup_fails_u1 and e = "Failed FindVoucher"
      and ids = new_ids and toISO = iso_sample]
  by (simp add: rollover_clock_def new_ids_def iso_sample_def user_expiring_def user_u1_def
      db_rollover_def voucher_u1_def oct_paid_def nov_unpaid_def empty_month_def nov28_def
      lookup_fails_u1_def moveTodayExpiredToUnpaid_on_def process_user_on_def rolled_def
      moveTodayExpiredToUnpaid_def expiredUsers_def in_rollover_query_def isDateLTE_def
      process_user_def newMonth_def monthName_def decimal.simps nextExpiryDate_def
      days_in_month_def leap_year_def valid_civil_def months_of_def Let_def)

text \<open>
  C9 as stated fails: the first subscriber of the batch raises, and the second, paid and
  expiring today, is not processed: the run returns the store unchanged.
\<close>

theorem batch_continues_counterexample:
  "expiredUsers (rollover_clock nov28)
        (db_rollover [user_expiring ''u0'' ''paid'' (ExpiryDateObj nov28),
                      user_expiring ''u1'' ''paid'' (ExpiryText nov28)])
      = [user_expiring ''u0'' ''paid'' (ExpiryDateObj nov28),
         user_expiring ''u1'' ''paid'' (ExpiryText nov28)]
   \<and> moveTodayExpiredToUnpaid (rollover_clock nov28) new_ids iso_sample
        (db_rollover [user_expiring ''u0'' ''paid'' (ExpiryDateObj nov28),
                      user_expiring ''u1'' ''paid'' (ExpiryText nov28)])
      = (Some TypeError,
         db_rollover [user_expiring ''u0'' ''paid'' (ExpiryDateObj nov28),
                      user_expiring ''u1'' ''paid'' (ExpiryText nov28)])"
  by (simp add: rollover_clock_def new_ids_def iso_sample_def user_expiring_def user_u1_def
      db_rollover_def voucher_u1_def oct_paid_def nov_unpaid_def empty_month_def nov28_def jan31_def jan15_def
      mar20_def moveTodayExpiredToUnpaid_def expiredUsers_def in_rollover_query_def isDateLTE_def
      process_user_def newMonth_def monthName_def decimal.simps nextExpiryDate_def
      days_in_month_def leap_year_def valid_civil_def months_of_def Let_def)

end
